theory Spec2Isabelle
  imports Complex_Main "HOL-Library.Log_Nat" "HOL-Library.Sublist"
begin

section \<open>JavaScript values used by the quote client\<close>

text \<open>
  The direct client (the JavaScript stored in \<^verbatim>\<open>papertrading/README.md\<close> after the
  project description: browser code that calls the Yahoo Finance chart API through a CORS
  proxy) is embedded as pure functions; the batch function of the backend client
  \<^verbatim>\<open>api_config.js\<close> follows it. Modelling decisions:

  \<^item> A JavaScript number is an IEEE 754 double: a finite double is the rational it
    denotes, next to the three special values. The result of \<open>-\<close>, \<open>/\<close>, \<open>*\<close> and
    \<open>+\<close> is the exact result rounded to the nearest double, ties to the even
    significand, and infinite beyond the largest double (\<open>round_double\<close>). A number
    literal of a JSON document is read as the double nearest to it
    (\<open>nearest_double\<close>, which leaves a double unchanged). Not represented: the sign of
    zero (\<open>-0\<close> is \<open>0\<close>), and a literal beyond the range of doubles.
  \<^item> \<open>parseFloat(x.toFixed(2))\<close> is given by the two-digit decimal that \<open>toFixed\<close>
    prints; the stored number is the double nearest to that decimal, and so prints as it.
  \<^item> The upstream response follows the provider's chart schema: every field is either
    absent (\<open>undefined\<close> or \<open>null\<close>, modelled as \<open>None\<close>) or has the type the schema
    gives it. Every level of the document may be absent.
  \<^item> A \<open>try { ... } catch\<close> is a function \<open>f_try\<close> returning \<open>js_error + 'a\<close> for the
    \<open>try\<close> block, and a function \<open>f\<close> that maps \<open>Inl\<close> to the value the handler returns.
    What the handler of \<open>fetchStockData\<close> passes to \<open>console.error\<close> is given by
    \<open>fetchStockData_console\<close>.
  \<^item> An awaited promise is the value it settles with; a \<open>fetch\<close> that never settles is
    outside the model. The i-th request of a fan-out gets the response \<open>upstream i symbol\<close>.
  \<^item> A plain object used as a dictionary is the map of its own properties, from property
    names to values; its prototype is not part of the map.
\<close>

datatype number = Num rat | Infinity | NegInfinity | NaN

datatype js_error =
    Error string            \<comment> \<open>\<open>new Error(message)\<close>\<close>
  | HttpError string nat    \<comment> \<open>\<open>new Error(`${prefix}${response.status}`)\<close>\<close>
  | TypeError               \<comment> \<open>property read or method call on \<open>undefined\<close>/\<open>null\<close>,
                                \<open>JSON.stringify\<close> of a value it cannot serialize\<close>
  | SyntaxError             \<comment> \<open>\<open>response.json()\<close> on a body that is not JSON\<close>
  | NetworkError            \<comment> \<open>\<open>fetch\<close> rejected\<close>

subsection \<open>Double precision\<close>

text \<open>Powers of two with an integer exponent.\<close>

definition pow2 :: "int \<Rightarrow> rat" where
  "pow2 k = (if 0 \<le> k then 2 ^ nat k else 1 / 2 ^ nat (- k))"

text \<open>
  The binary exponent of \<open>x \<noteq> 0\<close>, the \<open>e\<close> with \<open>2^e \<le> \<bar>x\<bar> < 2^(e+1)\<close>: for
  \<open>\<bar>x\<bar> = p / q\<close> it is the difference of the bit lengths of \<open>p\<close> and \<open>q\<close>, or one less.
\<close>

definition exponent :: "rat \<Rightarrow> int" where
  "exponent x =
     (let (p, q) = quotient_of \<bar>x\<bar>; d = bitlen p - bitlen q
      in if pow2 d \<le> \<bar>x\<bar> then d else d - 1)"

text \<open>The integer nearest to \<open>r\<close>, the even one of two that are equally near.\<close>

definition round_half_even :: "rat \<Rightarrow> int" where
  "round_half_even r =
     (let n = \<lfloor>r\<rfloor>; f = r - of_int n
      in if f < 1 / 2 then n else if 1 / 2 < f then n + 1 else if even n then n else n + 1)"

text \<open>
  Rounding to 53 significant bits: the doubles around \<open>x\<close> are the multiples of
  \<open>2^(e - 52)\<close>, where \<open>e\<close> is the exponent of \<open>x\<close> and at least \<open>-1022\<close> (below that
  the doubles are the subnormal ones, equally spaced).
\<close>

definition nearest_double :: "rat \<Rightarrow> rat" where
  "nearest_double x =
     (if x = 0 then 0
      else let ulp = pow2 (max (exponent x) (- 1022) - 52)
           in sgn x * of_int (round_half_even (\<bar>x\<bar> / ulp)) * ulp)"

text \<open>The same with overflow: a rounded value of exponent 1024 or more is infinite.\<close>

definition round_double :: "rat \<Rightarrow> number" where
  "round_double x =
     (let y = nearest_double x
      in if y = 0 then Num 0
         else if 1024 \<le> exponent y then (if 0 < y then Infinity else NegInfinity)
         else Num y)"

text \<open>\<open>a - b\<close> on finite operands.\<close>

definition js_sub :: "rat \<Rightarrow> rat \<Rightarrow> number" where
  "js_sub a b = round_double (a - b)"

text \<open>\<open>a / b\<close> with a finite right operand.\<close>

fun js_div :: "number \<Rightarrow> rat \<Rightarrow> number" where
  "js_div (Num a) b =
     (if b = 0 then (if a = 0 then NaN else if 0 < a then Infinity else NegInfinity)
      else round_double (a / b))"
| "js_div Infinity b = (if b < 0 then NegInfinity else Infinity)"
| "js_div NegInfinity b = (if b < 0 then Infinity else NegInfinity)"
| "js_div NaN b = NaN"

text \<open>\<open>x * c\<close> with a finite right operand.\<close>

fun js_mul :: "number \<Rightarrow> rat \<Rightarrow> number" where
  "js_mul (Num a) c = round_double (a * c)"
| "js_mul Infinity c = (if c = 0 then NaN else if 0 < c then Infinity else NegInfinity)"
| "js_mul NegInfinity c = (if c = 0 then NaN else if 0 < c then NegInfinity else Infinity)"
| "js_mul NaN c = NaN"

text \<open>\<open>x + c\<close> with a finite right operand.\<close>

fun js_add :: "number \<Rightarrow> rat \<Rightarrow> number" where
  "js_add (Num a) c = round_double (a + c)"
| "js_add Infinity c = Infinity"
| "js_add NegInfinity c = NegInfinity"
| "js_add NaN c = NaN"

subsection \<open>Formatting and defaults\<close>

text \<open>
  \<open>parseFloat(x.toFixed(2))\<close> on a finite number: \<open>toFixed\<close> takes the integer \<open>n\<close> with
  \<open>n / 100\<close> nearest to the magnitude of \<open>x\<close>, the larger one on a tie, and restores the
  sign; from \<open>10^21\<close> on it prints the number itself.
\<close>

definition toFixed2 :: "rat \<Rightarrow> rat" where
  "toFixed2 x =
     (if 10 ^ 21 \<le> \<bar>x\<bar> then x
      else if x < 0 then - (of_int \<lfloor>(- x) * 100 + 1 / 2\<rfloor> / 100)
      else of_int \<lfloor>x * 100 + 1 / 2\<rfloor> / 100)"

text \<open>The same on any number: \<open>"Infinity"\<close>, \<open>"-Infinity"\<close> and \<open>"NaN"\<close> parse back.\<close>

fun toFixed2_number :: "number \<Rightarrow> number" where
  "toFixed2_number (Num x) = Num (toFixed2 x)"
| "toFixed2_number Infinity = Infinity"
| "toFixed2_number NegInfinity = NegInfinity"
| "toFixed2_number NaN = NaN"

text \<open>
  Reading a number of the document, which may be absent: \<open>response.json()\<close> has turned
  the literal into the double nearest to it.
\<close>

definition parsed :: "rat option \<Rightarrow> rat option" where
  "parsed v = map_option nearest_double v"

text \<open>\<open>a || b\<close> where \<open>a\<close> is a number or absent: \<open>0\<close> is falsy.\<close>

definition or_number :: "rat option \<Rightarrow> rat option \<Rightarrow> rat option" where
  "or_number a b = (case a of None \<Rightarrow> b | Some x \<Rightarrow> if x = 0 then b else Some x)"

text \<open>\<open>a || b\<close> where \<open>a\<close> is a string or absent: the empty string is falsy.\<close>

definition or_str :: "string option \<Rightarrow> string option \<Rightarrow> string option" where
  "or_str a b = (case a of None \<Rightarrow> b | Some s \<Rightarrow> if s = [] then b else Some s)"

definition or_default :: "string option \<Rightarrow> string \<Rightarrow> string" where
  "or_default a d = (case a of None \<Rightarrow> d | Some s \<Rightarrow> if s = [] then d else s)"

text \<open>\<open>v || 0\<close> on a sample that is a number or \<open>null\<close>.\<close>

definition or_zero :: "rat option \<Rightarrow> rat" where
  "or_zero v = (case v of None \<Rightarrow> 0 | Some x \<Rightarrow> if x = 0 then 0 else x)"

text \<open>\<open>a || 0\<close> on a number: \<open>0\<close> and \<open>NaN\<close> are falsy.\<close>

fun or_zero_number :: "number \<Rightarrow> number" where
  "or_zero_number (Num x) = (if x = 0 then Num 0 else Num x)"
| "or_zero_number Infinity = Infinity"
| "or_zero_number NegInfinity = NegInfinity"
| "or_zero_number NaN = Num 0"

text \<open>\<open>xs.filter(v => v !== null)\<close>.\<close>

fun filter_non_null :: "'a option list \<Rightarrow> 'a list" where
  "filter_non_null [] = []"
| "filter_non_null (None # xs) = filter_non_null xs"
| "filter_non_null (Some x # xs) = x # filter_non_null xs"

text \<open>
  \<open>Math.max(...vs)\<close> and \<open>Math.min(...vs)\<close>: start from \<open>-Infinity\<close> (\<open>+Infinity\<close>) and
  keep the larger (smaller) argument. The limit an engine puts on the number of spread
  arguments is not represented. Rounding to the nearest double keeps the order, so the
  sample chosen is the same whether the samples are given as literals or as the doubles
  they parse to; the result is given as the sample.
\<close>

definition Math_max :: "rat list \<Rightarrow> number" where
  "Math_max vs =
     foldl (\<lambda>highest v. case highest of
                Num h \<Rightarrow> if h < v then Num v else Num h
              | NegInfinity \<Rightarrow> Num v
              | other \<Rightarrow> other) NegInfinity vs"

definition Math_min :: "rat list \<Rightarrow> number" where
  "Math_min vs =
     foldl (\<lambda>lowest v. case lowest of
                Num l \<Rightarrow> if v < l then Num v else Num l
              | Infinity \<Rightarrow> Num v
              | other \<Rightarrow> other) Infinity vs"

section \<open>The upstream chart response\<close>

record yahoo_meta =
  regularMarketPrice :: "rat option"
  previousClose :: "rat option"
  chartPreviousClose :: "rat option"
  longName :: "string option"
  shortName :: "string option"
  exchangeName :: "string option"
  exchange :: "string option"

record yahoo_quote =
  close :: "rat option list option"
  high :: "rat option list option"
  low :: "rat option list option"
  volume :: "rat option list option"

record yahoo_indicators =
  quote :: "yahoo_quote list option"

record yahoo_result =
  meta :: "yahoo_meta option"
  indicators :: "yahoo_indicators option"

record yahoo_chart =
  result :: "yahoo_result list option"

record yahoo_data =
  chart :: "yahoo_chart option"

text \<open>
  A response: \<open>json\<close> is the document \<open>response.json()\<close> resolves with, \<open>None\<close> when the
  body is not JSON. A \<open>fetch\<close> either rejects or resolves with a response.
\<close>

record 'a response =
  ok :: bool
  status :: nat
  json :: "'a option"

datatype 'a fetch_outcome = Rejected | Resolved "'a response"

section \<open>The records the client builds\<close>

text \<open>An entry of the fixed index list, an index snapshot, and a normalized quote.\<close>

record index_entry =
  symbol :: string
  name :: string

record snapshot =
  name :: string
  price :: rat
  change :: number
  percent :: number

record stock =
  symbol :: string
  name :: string
  ltp :: rat
  change :: number
  percent :: number
  exchange :: string
  previousClose :: rat
  high :: number
  low :: number
  volume :: number

section \<open>fetchStockData\<close>

text \<open>
  \<open>meta.regularMarketPrice || quote.close[quote.close.length - 1]\<close>, where \<open>quote\<close> is
  \<open>result.indicators.quote[0]\<close> (\<open>None\<close> when that array is empty). The right operand is
  evaluated only when the left one is falsy. Index \<open>-1\<close> of an empty array is \<open>undefined\<close>.
\<close>

definition current_price :: "yahoo_meta \<Rightarrow> yahoo_quote option \<Rightarrow> js_error + rat option" where
  "current_price m q =
     (if parsed (regularMarketPrice m) \<noteq> None \<and> parsed (regularMarketPrice m) \<noteq> Some 0
      then Inr (parsed (regularMarketPrice m))
      else
        (case q of
           None \<Rightarrow> Inl TypeError
         | Some qt \<Rightarrow>
             (case close qt of
                None \<Rightarrow> Inl TypeError
              | Some cs \<Rightarrow> Inr (if cs = [] then None else parsed (last cs)))))"

text \<open>\<open>meta.previousClose || meta.chartPreviousClose\<close>.\<close>

definition previous_close :: "yahoo_meta \<Rightarrow> rat option" where
  "previous_close m =
     or_number (parsed (yahoo_meta.previousClose m)) (parsed (chartPreviousClose m))"

text \<open>
  The object of the \<open>return\<close> statement, for a current price \<open>cp\<close> and a previous
  close \<open>pc\<close> that are numbers. The callback of \<open>reduce\<close> is
  \<open>(a, b) => (a || 0) + (b || 0)\<close>, with \<open>a\<close> the sum so far and \<open>b\<close> the sample.
\<close>

definition quote_record :: "string \<Rightarrow> yahoo_meta \<Rightarrow> yahoo_quote \<Rightarrow> rat \<Rightarrow> rat \<Rightarrow> stock" where
  "quote_record s m qt cp pc =
     (let change = js_sub cp pc;
          percentChange = js_mul (js_div change pc) 100
      in \<lparr> symbol = s,
           name = or_default (or_str (longName m) (shortName m)) s,
           ltp = toFixed2 cp,
           change = toFixed2_number change,
           percent = toFixed2_number percentChange,
           exchange = or_default (or_str (exchangeName m) (yahoo_meta.exchange m)) ''Unknown'',
           previousClose = toFixed2 pc,
           high = (case yahoo_quote.high qt of
                     Some hs \<Rightarrow> Math_max (filter_non_null hs) | None \<Rightarrow> Num cp),
           low = (case yahoo_quote.low qt of
                    Some ls \<Rightarrow> Math_min (filter_non_null ls) | None \<Rightarrow> Num cp),
           volume = (case yahoo_quote.volume qt of
                       Some vs \<Rightarrow> foldl (\<lambda>a b. js_add (or_zero_number a) (or_zero (parsed b)))
                                         (Num 0) vs
                     | None \<Rightarrow> Num 0) \<rparr>)"

text \<open>
  The part of the \<open>try\<close> block after the first result entry has been found. The two
  \<open>toFixed\<close> calls on \<open>currentPrice\<close> and \<open>previousClose\<close> raise \<open>TypeError\<close> on a
  value that is not a number, and so does \<open>quote.high\<close> when there is no quote block;
  \<open>change\<close> and \<open>percentChange\<close> are pure arithmetic whose values are read only in the
  returned object, so they are computed once both prices are known to be numbers.
\<close>

definition quote_of_result :: "string \<Rightarrow> yahoo_result \<Rightarrow> js_error + stock" where
  "quote_of_result s res =
     (case indicators res of
        None \<Rightarrow> Inl TypeError
      | Some ind \<Rightarrow>
     (case quote ind of
        None \<Rightarrow> Inl TypeError
      | Some qs \<Rightarrow>
     (let q = (case qs of [] \<Rightarrow> None | qt # _ \<Rightarrow> Some qt) in
     (case meta res of
        None \<Rightarrow> Inl TypeError
      | Some m \<Rightarrow>
     (case current_price m q of
        Inl e \<Rightarrow> Inl e
      | Inr currentPrice \<Rightarrow>
     (let previousClose = previous_close m in
     (case currentPrice of
        None \<Rightarrow> Inl TypeError
      | Some cp \<Rightarrow>
     (case previousClose of
        None \<Rightarrow> Inl TypeError
      | Some pc \<Rightarrow>
     (case q of
        None \<Rightarrow> Inl TypeError
      | Some qt \<Rightarrow> Inr (quote_record s m qt cp pc))))))))))"

definition fetchStockData_try :: "string \<Rightarrow> yahoo_data fetch_outcome \<Rightarrow> js_error + stock" where
  "fetchStockData_try s outcome =
     (case outcome of
        Rejected \<Rightarrow> Inl NetworkError
      | Resolved response \<Rightarrow>
          if \<not> ok response
          then Inl (HttpError (''Failed to fetch '' @ s @ '': '') (status response))
          else
            (case json response of
               None \<Rightarrow> Inl SyntaxError
             | Some data \<Rightarrow>
                 (case chart data of
                    None \<Rightarrow> Inl TypeError
                  | Some c \<Rightarrow>
                      (case result c of
                         None \<Rightarrow> Inl TypeError
                       | Some [] \<Rightarrow> Inl (Error ''No data available for this symbol'')
                       | Some (res # _) \<Rightarrow> quote_of_result s res))))"

text \<open>The handler returns \<open>null\<close>, modelled as \<open>None\<close>.\<close>

definition fetchStockData :: "string \<Rightarrow> yahoo_data fetch_outcome \<Rightarrow> stock option" where
  "fetchStockData s outcome =
     (case fetchStockData_try s outcome of Inl error \<Rightarrow> None | Inr data \<Rightarrow> Some data)"

text \<open>
  What the call writes to the console: the handler's one
  \<open>console.error(`Error fetching stock ${symbol}:`, error)\<close>, the pair of its arguments.
\<close>

definition fetchStockData_console :: "string \<Rightarrow> yahoo_data fetch_outcome \<Rightarrow> (string \<times> js_error) list" where
  "fetchStockData_console s outcome =
     (case fetchStockData_try s outcome of
        Inl error \<Rightarrow> [(''Error fetching stock '' @ s @ '':'', error)]
      | Inr data \<Rightarrow> [])"

section \<open>fetchBatchStocks\<close>

text \<open>
  A value of the result object: a quote, or the object \<open>{ error: 'Failed to fetch' }\<close>.
\<close>

datatype entry = Quote stock | ErrorMarker string

text \<open>
  The argument \<open>symbols\<close>: an array of strings, or a value without a \<open>map\<close> method, on
  which \<open>symbols.map(...)\<close> raises \<open>TypeError\<close>. Of the latter, \<open>NotArray\<close> is one that
  \<open>JSON.stringify\<close> accepts (\<open>undefined\<close>, \<open>null\<close>, a number, a string, a plain
  object), \<open>NotSerializable\<close> one on which \<open>JSON.stringify\<close> raises \<open>TypeError\<close> (a
  \<open>BigInt\<close>, an object that contains itself).
\<close>

datatype symbols_arg = Array "string list" | NotArray | NotSerializable

text \<open>The body of the \<open>forEach\<close> callback: what is stored under the symbol.\<close>

definition batch_entry :: "stock option \<Rightarrow> entry" where
  "batch_entry r = (case r of Some data \<Rightarrow> Quote data | None \<Rightarrow> ErrorMarker ''Failed to fetch'')"

text \<open>
  \<open>obj[k] = v\<close> on an object created by \<open>{}\<close>, for a value \<open>v\<close> that is an object.
  The name \<open>__proto__\<close> is the accessor inherited from \<open>Object.prototype\<close>: its setter
  makes \<open>v\<close> the prototype of \<open>obj\<close> and adds no property. Every other name becomes,
  or updates, a property of \<open>obj\<close> itself. The map holds the object's own properties.
\<close>

definition set_property :: "(string \<rightharpoonup> 'v) \<Rightarrow> string \<Rightarrow> 'v \<Rightarrow> (string \<rightharpoonup> 'v)" where
  "set_property obj k v = (if k = ''__proto__'' then obj else obj(k \<mapsto> v))"

definition fetchBatchStocks_try ::
  "symbols_arg \<Rightarrow> (nat \<Rightarrow> string \<Rightarrow> yahoo_data fetch_outcome) \<Rightarrow> js_error + (string \<rightharpoonup> entry)" where
  "fetchBatchStocks_try arg upstream =
     (case arg of
        NotArray \<Rightarrow> Inl TypeError
      | NotSerializable \<Rightarrow> Inl TypeError
      | Array symbols \<Rightarrow>
          (let results = map (\<lambda>(index, s). fetchStockData s (upstream index s)) (enumerate 0 symbols)
           in Inr (fold (\<lambda>(index, s) stocksObject.
                           set_property stocksObject s (batch_entry (results ! index)))
                        (enumerate 0 symbols) Map.empty)))"

text \<open>The handler returns \<open>{}\<close>.\<close>

definition fetchBatchStocks ::
  "symbols_arg \<Rightarrow> (nat \<Rightarrow> string \<Rightarrow> yahoo_data fetch_outcome) \<Rightarrow> (string \<rightharpoonup> entry)" where
  "fetchBatchStocks arg upstream =
     (case fetchBatchStocks_try arg upstream of Inl error \<Rightarrow> Map.empty | Inr stocksObject \<Rightarrow> stocksObject)"

section \<open>fetchIndices\<close>

definition indices :: "index_entry list" where
  "indices =
     [\<lparr> index_entry.symbol = ''^NSEI'', index_entry.name = ''NIFTY 50'' \<rparr>,
      \<lparr> index_entry.symbol = ''^NSEBANK'', index_entry.name = ''NIFTY BANK'' \<rparr>,
      \<lparr> index_entry.symbol = ''^BSESN'', index_entry.name = ''SENSEX'' \<rparr>]"

text \<open>
  The callback of \<open>indices.map\<close>. \<open>fetchStockData\<close> never raises, so the inner handler
  has nothing to catch.
\<close>

definition index_snapshot :: "index_entry \<Rightarrow> yahoo_data fetch_outcome \<Rightarrow> snapshot option" where
  "index_snapshot index outcome =
     (case fetchStockData (index_entry.symbol index) outcome of
        Some data \<Rightarrow>
          Some \<lparr> snapshot.name = index_entry.name index,
                 price = ltp data,
                 snapshot.change = change data,
                 snapshot.percent = percent data \<rparr>
      | None \<Rightarrow> None)"

definition fetchIndices_try ::
  "(nat \<Rightarrow> string \<Rightarrow> yahoo_data fetch_outcome) \<Rightarrow> js_error + snapshot list" where
  "fetchIndices_try upstream =
     (let results = map (\<lambda>(i, index). index_snapshot index (upstream i (index_entry.symbol index)))
                        (enumerate 0 indices)
      in Inr (filter_non_null results))"

text \<open>The handler returns \<open>[]\<close>.\<close>

definition fetchIndices :: "(nat \<Rightarrow> string \<Rightarrow> yahoo_data fetch_outcome) \<Rightarrow> snapshot list" where
  "fetchIndices upstream =
     (case fetchIndices_try upstream of Inl error \<Rightarrow> [] | Inr snapshots \<Rightarrow> snapshots)"

section \<open>The backend client: fetchBatchStocks of api\_config.js\<close>

text \<open>
  This variant posts the symbols to the proxy server in one request and returns
  \<open>data.stocks || {}\<close>. \<open>JSON.stringify({ symbols })\<close> is evaluated first and raises on
  an argument it cannot serialize; then no request is made. The server is a function from
  the request to the outcome of the \<open>fetch\<close>. The body parses to \<open>null\<close> (the inner
  \<open>None\<close>), on which reading \<open>data.stocks\<close> raises \<open>TypeError\<close>, or to a value whose
  \<open>stocks\<close> is an object or is absent (also: falsy, or the body is not an object).
\<close>

record 'v backend_data =
  stocks :: "(string \<rightharpoonup> 'v) option"

definition fetchBatchStocks_backend_try ::
  "symbols_arg \<Rightarrow> (symbols_arg \<Rightarrow> 'v backend_data option fetch_outcome)
     \<Rightarrow> js_error + (string \<rightharpoonup> 'v)" where
  "fetchBatchStocks_backend_try arg backend =
     (if arg = NotSerializable then Inl TypeError
      else
        (case backend arg of
           Rejected \<Rightarrow> Inl NetworkError
         | Resolved response \<Rightarrow>
             if \<not> ok response then Inl (HttpError ''Batch fetch failed: '' (status response))
             else
               (case json response of
                  None \<Rightarrow> Inl SyntaxError
                | Some None \<Rightarrow> Inl TypeError
                | Some (Some data) \<Rightarrow>
                    Inr (case stocks data of
                           Some stocksObject \<Rightarrow> stocksObject | None \<Rightarrow> Map.empty))))"

definition fetchBatchStocks_backend ::
  "symbols_arg \<Rightarrow> (symbols_arg \<Rightarrow> 'v backend_data option fetch_outcome) \<Rightarrow> (string \<rightharpoonup> 'v)" where
  "fetchBatchStocks_backend arg backend =
     (case fetchBatchStocks_backend_try arg backend of
        Inl error \<Rightarrow> Map.empty
      | Inr stocksObject \<Rightarrow> stocksObject)"

section \<open>Responses used to state and to test the properties\<close>

text \<open>
  A successful response whose first result entry has a \<open>meta\<close> object and a first quote
  block. \<open>rest\<close> and \<open>qs\<close> are the entries the client never reads. Every response on
  which \<open>fetchStockData\<close> succeeds has this shape (lemma \<open>fetchStockData_Some_shape\<close>).
\<close>

definition chart_response ::
  "nat \<Rightarrow> yahoo_meta \<Rightarrow> yahoo_quote \<Rightarrow> yahoo_quote list \<Rightarrow> yahoo_result list \<Rightarrow> yahoo_data fetch_outcome" where
  "chart_response st m qt qs rest =
     Resolved \<lparr> ok = True, status = st,
                json = Some \<lparr> chart = Some \<lparr> result = Some
                  (\<lparr> meta = Some m, indicators = Some \<lparr> quote = Some (qt # qs) \<rparr> \<rparr> # rest) \<rparr> \<rparr> \<rparr>"

text \<open>
  The close series gives no price: it is absent, empty, or its last sample, the only one
  \<open>current_price\<close> reads, is \<open>null\<close>. A series without any non-\<open>null\<close> sample is such a
  series.
\<close>

definition no_usable_close :: "yahoo_quote \<Rightarrow> bool" where
  "no_usable_close qt =
     (case close qt of None \<Rightarrow> True | Some cs \<Rightarrow> cs = [] \<or> last cs = None)"

text \<open>
  The samples of a volume series are \<open>null\<close> or integers, and the sum of their
  magnitudes is at most \<open>2^53\<close>, up to which every integer is a double.
\<close>

definition integer_samples :: "rat option list \<Rightarrow> bool" where
  "integer_samples vs =
     ((\<forall>v \<in> set vs. case v of None \<Rightarrow> True | Some x \<Rightarrow> x = of_int \<lfloor>x\<rfloor>)
      \<and> sum_list (map (\<lambda>v. case v of None \<Rightarrow> 0 | Some x \<Rightarrow> \<bar>x\<bar>) vs) \<le> 2 ^ 53)"

text \<open>Last price 100.004, previous close 90, three samples per series, no names.\<close>

definition example_meta :: yahoo_meta where
  "example_meta =
     \<lparr> regularMarketPrice = Some (100004 / 1000), yahoo_meta.previousClose = Some 90,
       chartPreviousClose = None, longName = None, shortName = None,
       exchangeName = None, yahoo_meta.exchange = None \<rparr>"

definition example_quote :: yahoo_quote where
  "example_quote =
     \<lparr> close = Some [Some 99, Some (100004 / 1000)],
       yahoo_quote.high = Some [Some 101, None, Some (101456 / 1000)],
       yahoo_quote.low = Some [Some (98765 / 1000), None, Some 99],
       yahoo_quote.volume = Some [Some 100, None, Some 50] \<rparr>"

definition example_response :: "yahoo_data fetch_outcome" where
  "example_response = chart_response 200 example_meta example_quote [] []"

text \<open>The same market data with names, and with the sample series left out.\<close>

definition named_meta :: yahoo_meta where
  "named_meta =
     example_meta \<lparr> longName := Some ''Tata Consultancy Services Limited'',
                    shortName := Some ''TCS'', exchangeName := Some ''NSI'' \<rparr>"

definition bare_quote :: yahoo_quote where
  "bare_quote =
     \<lparr> close = None, yahoo_quote.high = None, yahoo_quote.low = None, yahoo_quote.volume = None \<rparr>"

text \<open>No market price and a last close sample that is \<open>null\<close>.\<close>

definition priceless_meta :: yahoo_meta where
  "priceless_meta = example_meta \<lparr> regularMarketPrice := None \<rparr>"

definition priceless_quote :: yahoo_quote where
  "priceless_quote = example_quote \<lparr> close := Some [Some 99, None] \<rparr>"

text \<open>
  Last price 183, previous close 160: the quotient \<open>23 / 160\<close> is not a double. And a
  volume series whose sum, \<open>2^53 + 1\<close>, is not a double.
\<close>

definition binary_meta :: yahoo_meta where
  "binary_meta =
     example_meta \<lparr> regularMarketPrice := Some 183, yahoo_meta.previousClose := Some 160 \<rparr>"

definition large_volume_quote :: yahoo_quote where
  "large_volume_quote =
     example_quote \<lparr> yahoo_quote.volume := Some [Some 9007199254740992, Some 1] \<rparr>"

text \<open>Failures: HTTP 404, and a successful response with an empty result array.\<close>

definition not_found_response :: "yahoo_data fetch_outcome" where
  "not_found_response = Resolved \<lparr> ok = False, status = 404, json = None \<rparr>"

definition empty_result_response :: "yahoo_data fetch_outcome" where
  "empty_result_response =
     Resolved \<lparr> ok = True, status = 200, json = Some \<lparr> chart = Some \<lparr> result = Some [] \<rparr> \<rparr> \<rparr>"

text \<open>Upstreams: one that knows every symbol but \<open>BADSYM\<close> and \<open>^NSEBANK\<close>, one whose
  first request fails, and one that is down.\<close>

definition example_upstream :: "nat \<Rightarrow> string \<Rightarrow> yahoo_data fetch_outcome" where
  "example_upstream i s =
     (if s = ''BADSYM'' \<or> s = ''^NSEBANK'' then not_found_response else example_response)"


definition down_upstream :: "nat \<Rightarrow> string \<Rightarrow> yahoo_data fetch_outcome" where
  "down_upstream i s = Rejected"

text \<open>A proxy server that answers every batch request with HTTP 500.\<close>

definition failing_backend :: "symbols_arg \<Rightarrow> entry backend_data option fetch_outcome" where
  "failing_backend arg = Resolved \<lparr> ok = False, status = 500, json = None \<rparr>"

section \<open>What a successful fetch has read\<close>

lemma fetchStockData_Some_shape:
  assumes "fetchStockData s outcome = Some q"
  shows "\<exists>st m qt qs rest. outcome = chart_response st m qt qs rest"
proof -
  from assms obtain response where 1: "outcome = Resolved response" and ok: "ok response"
    by (cases outcome) (auto simp: fetchStockData_def fetchStockData_try_def split: if_splits)
  from assms 1 ok obtain data where 2: "json response = Some data"
    by (cases "json response") (auto simp: fetchStockData_def fetchStockData_try_def)
  from assms 1 ok 2 obtain c where 3: "chart data = Some c"
    by (cases "chart data") (auto simp: fetchStockData_def fetchStockData_try_def)
  from assms 1 ok 2 3 obtain res rest where 4: "result c = Some (res # rest)"
    by (cases "result c") (auto simp: fetchStockData_def fetchStockData_try_def split: list.splits)
  from assms 1 ok 2 3 4 have 5: "quote_of_result s res \<noteq> Inl TypeError \<and> (\<exists>q. quote_of_result s res = Inr q)"
    by (auto simp: fetchStockData_def fetchStockData_try_def split: sum.splits)
  then obtain ind where 6: "indicators res = Some ind"
    by (cases "indicators res") (auto simp: quote_of_result_def)
  from 5 6 obtain qts where 7: "quote ind = Some qts"
    by (cases "quote ind") (auto simp: quote_of_result_def)
  from 5 6 7 obtain m where 8: "meta res = Some m"
    by (cases "meta res") (auto simp: quote_of_result_def)
  from 5 6 7 8 obtain qt qs where 9: "qts = qt # qs"
    by (cases qts) (auto simp: quote_of_result_def Let_def split: sum.splits option.splits)
  have "outcome = chart_response (status response) m qt qs rest"
    using 1 ok 2 3 4 6 7 8 9 by (simp add: chart_response_def)
  then show ?thesis by blast
qed

lemma fetchStockData_try_chart_response:
  "fetchStockData_try s (chart_response st m qt qs rest) =
     (case current_price m (Some qt) of
        Inl e \<Rightarrow> Inl e
      | Inr None \<Rightarrow> Inl TypeError
      | Inr (Some cp) \<Rightarrow>
          (case previous_close m of
             None \<Rightarrow> Inl TypeError
           | Some pc \<Rightarrow> Inr (quote_record s m qt cp pc)))"
  by (simp add: fetchStockData_try_def chart_response_def quote_of_result_def Let_def
           split: sum.splits option.splits)

lemma fetchStockData_chart_response_Some:
  assumes "fetchStockData s (chart_response st m qt qs rest) = Some q"
  shows "\<exists>cp pc. current_price m (Some qt) = Inr (Some cp)
            \<and> previous_close m = Some pc
            \<and> q = quote_record s m qt cp pc"
  using assms unfolding fetchStockData_def fetchStockData_try_chart_response
  by (auto split: sum.splits option.splits)

lemma fetchStockData_Some:
  assumes "fetchStockData s outcome = Some q"
  shows "\<exists>st m qt qs rest cp pc.
           outcome = chart_response st m qt qs rest
         \<and> current_price m (Some qt) = Inr (Some cp)
         \<and> previous_close m = Some pc
         \<and> q = quote_record s m qt cp pc"
proof -
  from fetchStockData_Some_shape [OF assms] obtain st m qt qs rest
    where shape: "outcome = chart_response st m qt qs rest" by blast
  with assms fetchStockData_chart_response_Some [of s st m qt qs rest q] show ?thesis
    by blast
qed

section \<open>Evaluating the model on the test responses\<close>

lemma example_numbers:
  "nearest_double (100004 / 1000) \<noteq> 0"
  "nearest_double 90 = 90"
  "toFixed2 (nearest_double (100004 / 1000)) = 100"
  "toFixed2 90 = 90"
  "toFixed2_number (js_sub (nearest_double (100004 / 1000)) 90) = Num 10"
  "toFixed2_number (js_mul (js_div (js_sub (nearest_double (100004 / 1000)) 90) 90) 100)
     = Num (1112 / 100)"
  "foldl (\<lambda>a b. js_add (or_zero_number a) (or_zero (parsed b))) (Num 0) [Some 100, None, Some 50]
     = Num 150"
  by code_simp+

lemma binary_numbers:
  "nearest_double 183 = 183"
  "nearest_double 160 = 160"
  "toFixed2 183 = 183"
  "toFixed2 160 = 160"
  "toFixed2_number (js_sub 183 160) = Num 23"
  "toFixed2_number (js_mul (js_div (js_sub 183 160) 160) 100) = Num (1437 / 100)"
  by code_simp+

lemma stored_change_percent:
  "toFixed2_number (js_mul (js_div (Num 10) 90) 100) = Num (1111 / 100)"
  by code_simp

lemma large_volume_sum:
  "foldl (\<lambda>a b. js_add (or_zero_number a) (or_zero (parsed b))) (Num 0)
     [Some 9007199254740992, Some 1] = Num 9007199254740992"
  by code_simp

lemma example_prices:
  "current_price example_meta (Some qt) = Inr (Some (nearest_double (100004 / 1000)))"
  "current_price named_meta (Some qt) = Inr (Some (nearest_double (100004 / 1000)))"
  "previous_close example_meta = Some 90"
  "previous_close named_meta = Some 90"
  using example_numbers(1,2)
  by (simp_all add: current_price_def previous_close_def parsed_def or_number_def
        named_meta_def example_meta_def)

lemma example_series:
  "Math_max (filter_non_null [Some 101, None, Some (101456 / 1000)]) = Num (101456 / 1000)"
  "Math_min (filter_non_null [Some (98765 / 1000), None, Some 99]) = Num (98765 / 1000)"
  by (simp_all add: Math_max_def Math_min_def)

lemma fetchStockData_example:
  "fetchStockData s example_response =
     Some \<lparr> symbol = s, name = s, ltp = 100, change = Num 10,
            percent = Num (1112 / 100), exchange = ''Unknown'', previousClose = 90,
            high = Num (101456 / 1000), low = Num (98765 / 1000), volume = Num 150 \<rparr>"
proof -
  have "fetchStockData_try s example_response =
          Inr (quote_record s example_meta example_quote (nearest_double (100004 / 1000)) 90)"
    by (simp add: example_response_def fetchStockData_try_chart_response example_prices)
  with example_numbers example_series show ?thesis
    by (simp add: fetchStockData_def quote_record_def example_meta_def example_quote_def
          or_default_def or_str_def)
qed

lemma fetchStockData_not_found: "fetchStockData s not_found_response = None"
  by (simp add: fetchStockData_def fetchStockData_try_def not_found_response_def)

lemma fetchStockData_bare:
  "fetchStockData s (chart_response 200 example_meta bare_quote [] [])
     = Some \<lparr> symbol = s, name = s, ltp = 100, change = Num 10,
              percent = Num (1112 / 100), exchange = ''Unknown'', previousClose = 90,
              high = Num (nearest_double (100004 / 1000)),
              low = Num (nearest_double (100004 / 1000)), volume = Num 0 \<rparr>"
proof -
  have "fetchStockData_try s (chart_response 200 example_meta bare_quote [] []) =
          Inr (quote_record s example_meta bare_quote (nearest_double (100004 / 1000)) 90)"
    by (simp add: fetchStockData_try_chart_response example_prices)
  with example_numbers show ?thesis
    by (simp add: fetchStockData_def quote_record_def example_meta_def bare_quote_def
          or_default_def or_str_def)
qed

lemma fetchStockData_named:
  "fetchStockData s (chart_response 200 named_meta example_quote [] [])
     = Some \<lparr> symbol = s, name = ''Tata Consultancy Services Limited'', ltp = 100,
              change = Num 10, percent = Num (1112 / 100), exchange = ''NSI'', previousClose = 90,
              high = Num (101456 / 1000), low = Num (98765 / 1000), volume = Num 150 \<rparr>"
proof -
  have "fetchStockData_try s (chart_response 200 named_meta example_quote [] []) =
          Inr (quote_record s named_meta example_quote (nearest_double (100004 / 1000)) 90)"
    by (simp add: fetchStockData_try_chart_response example_prices)
  with example_numbers example_series show ?thesis
    by (simp add: fetchStockData_def quote_record_def named_meta_def example_meta_def
          example_quote_def or_default_def or_str_def)
qed

lemma fetchStockData_binary:
  "fetchStockData s (chart_response 200 binary_meta example_quote [] [])
     = Some \<lparr> symbol = s, name = s, ltp = 183, change = Num 23,
              percent = Num (1437 / 100), exchange = ''Unknown'', previousClose = 160,
              high = Num (101456 / 1000), low = Num (98765 / 1000), volume = Num 150 \<rparr>"
proof -
  have "current_price binary_meta (Some example_quote) = Inr (Some 183)"
    "previous_close binary_meta = Some 160"
    using binary_numbers(1,2)
    by (simp_all add: current_price_def previous_close_def parsed_def or_number_def
          binary_meta_def example_meta_def)
  then have "fetchStockData_try s (chart_response 200 binary_meta example_quote [] []) =
          Inr (quote_record s binary_meta example_quote 183 160)"
    by (simp add: fetchStockData_try_chart_response)
  with binary_numbers example_numbers(7) example_series show ?thesis
    by (simp add: fetchStockData_def quote_record_def binary_meta_def example_meta_def
          example_quote_def or_default_def or_str_def)
qed

lemma fetchStockData_large_volume:
  "fetchStockData s (chart_response 200 example_meta large_volume_quote [] [])
     = Some \<lparr> symbol = s, name = s, ltp = 100, change = Num 10,
              percent = Num (1112 / 100), exchange = ''Unknown'', previousClose = 90,
              high = Num (101456 / 1000), low = Num (98765 / 1000),
              volume = Num 9007199254740992 \<rparr>"
proof -
  have "fetchStockData_try s (chart_response 200 example_meta large_volume_quote [] []) =
          Inr (quote_record s example_meta large_volume_quote (nearest_double (100004 / 1000)) 90)"
    by (simp add: fetchStockData_try_chart_response example_prices)
  with example_numbers large_volume_sum example_series show ?thesis
    by (simp add: fetchStockData_def quote_record_def example_meta_def large_volume_quote_def
          example_quote_def or_default_def or_str_def)
qed

section \<open>Arithmetic of the normalized fields\<close>

text \<open>Every integer of magnitude up to \<open>2^53\<close> is a double.\<close>

lemma round_half_even_of_int: "round_half_even (of_int m) = m"
  by (simp add: round_half_even_def)

lemma exponent_of_int:
  assumes "n \<noteq> 0" and "\<bar>n\<bar> \<le> 2 ^ 53"
  shows "exponent (of_int n) \<le> 52 \<or> (exponent (of_int n) = 53 \<and> \<bar>n\<bar> = 2 ^ 53)"
proof -
  have "\<bar>of_int n :: rat\<bar> = of_int \<bar>n\<bar>" by simp
  then have q: "quotient_of \<bar>of_int n :: rat\<bar> = (\<bar>n\<bar>, 1)"
    by (simp only: quotient_of_rat_of_int)
  from assms(2) have "\<bar>n\<bar> < 2 ^ nat 54" by simp
  then have b: "bitlen \<bar>n\<bar> \<le> 54"
    by (simp only: bitlen_le_iff_power) simp
  have b1: "bitlen 1 = 1" by (simp add: bitlen_alt_def)
  let ?d = "bitlen \<bar>n\<bar> - 1"
  have e: "exponent (of_int n) = (if pow2 ?d \<le> \<bar>of_int n\<bar> then ?d else ?d - 1)"
    unfolding exponent_def q by (simp add: b1)
  show ?thesis
  proof (cases "?d = 53 \<and> pow2 ?d \<le> \<bar>of_int n\<bar>")
    case True
    then have d: "?d = 53" and le: "pow2 ?d \<le> \<bar>of_int n\<bar>" by blast+
    from le have "pow2 53 \<le> \<bar>of_int n\<bar>" unfolding d .
    then have "(of_int (2 ^ 53) :: rat) \<le> of_int \<bar>n\<bar>" by (simp add: pow2_def)
    then have "2 ^ 53 \<le> \<bar>n\<bar>" by (simp only: of_int_le_iff)
    with assms(2) True e show ?thesis by simp
  next
    case False
    show ?thesis
    proof (cases "?d \<le> 52")
      case True
      with e show ?thesis by (simp split: if_splits)
    next
      case large: False
      with b have "?d = 53" by simp
      with False have "\<not> pow2 ?d \<le> \<bar>of_int n\<bar>" by blast
      with e have "exponent (of_int n) = ?d - 1" by simp
      with b show ?thesis by simp
    qed
  qed
qed

lemma nearest_double_of_int:
  assumes "\<bar>n\<bar> \<le> 2 ^ 53"
  shows "nearest_double (of_int n) = of_int n"
proof (cases "n = 0")
  case True
  then show ?thesis by (simp add: nearest_double_def)
next
  case False
  let ?k = "max (exponent (of_int n)) (- 1022) - 52"
  have nd: "nearest_double (of_int n)
              = sgn (of_int n) * of_int (round_half_even (\<bar>of_int n\<bar> / pow2 ?k)) * pow2 ?k"
    using False by (simp add: nearest_double_def Let_def)
  from exponent_of_int [OF False assms]
  consider (small) "?k \<le> 0" | (top) "?k = 1" "\<bar>n\<bar> = 2 ^ 53"
    by auto
  then have "\<exists>m. \<bar>of_int n :: rat\<bar> / pow2 ?k = of_int m"
  proof cases
    case small
    then have "pow2 ?k = 1 / 2 ^ nat (- ?k) \<or> pow2 ?k = 1"
      by (auto simp: pow2_def)
    then have "\<bar>of_int n :: rat\<bar> / pow2 ?k = of_int (\<bar>n\<bar> * 2 ^ nat (- ?k))
               \<or> \<bar>of_int n :: rat\<bar> / pow2 ?k = of_int \<bar>n\<bar>"
      by auto
    then show ?thesis by blast
  next
    case top
    have "\<bar>of_int n :: rat\<bar> = of_int \<bar>n\<bar>" by simp
    with top have "\<bar>of_int n :: rat\<bar> / pow2 ?k = of_int (2 ^ 52)"
      by (simp add: pow2_def)
    then show ?thesis by blast
  qed
  then obtain m where m: "\<bar>of_int n :: rat\<bar> / pow2 ?k = of_int m" by blast
  have pos: "pow2 ?k \<noteq> 0" by (simp add: pow2_def)
  from m pos have "of_int m * pow2 ?k = \<bar>of_int n :: rat\<bar>"
    by (simp add: field_simps)
  then have "sgn (of_int n :: rat) * of_int m * pow2 ?k = of_int n"
    by (simp add: mult.assoc mult_sgn_abs)
  with nd m show ?thesis by (simp add: round_half_even_of_int)
qed

lemma round_double_of_int:
  assumes "\<bar>n\<bar> \<le> 2 ^ 53"
  shows "round_double (of_int n) = Num (of_int n)"
proof (cases "n = 0")
  case True
  then show ?thesis by (simp add: round_double_def nearest_double_def)
next
  case False
  from exponent_of_int [OF False assms] have "\<not> 1024 \<le> exponent (of_int n)" by auto
  with False show ?thesis
    by (simp add: round_double_def nearest_double_of_int [OF assms])
qed


lemma round_double_not_NaN: "round_double x \<noteq> NaN"
  by (simp add: round_double_def Let_def)

lemma js_add_not_NaN: "a \<noteq> NaN \<Longrightarrow> js_add a c \<noteq> NaN"
  by (cases a) (simp_all add: round_double_not_NaN)

lemma or_zero_number_id: "a \<noteq> NaN \<Longrightarrow> or_zero_number a = a"
  by (cases a) simp_all

lemma or_zero_number_Num: "or_zero_number (Num x) = Num x"
  by simp

lemma volume_accumulator:
  "acc \<noteq> NaN \<Longrightarrow>
   foldl (\<lambda>a b. js_add (or_zero_number a) (or_zero (parsed b))) acc vs
     = foldl (\<lambda>a b. js_add a (or_zero (parsed b))) acc vs"
proof (induction vs arbitrary: acc)
  case Nil
  then show ?case by simp
next
  case (Cons v vs)
  from Cons.prems have "js_add acc (or_zero (parsed v)) \<noteq> NaN"
    by (rule js_add_not_NaN)
  from Cons.IH [OF this] Cons.prems show ?case
    by (simp add: or_zero_number_id)
qed

lemma volume_integers:
  assumes "\<forall>v \<in> set vs. case v of None \<Rightarrow> True | Some x \<Rightarrow> x = of_int \<lfloor>x\<rfloor>"
    and "of_int \<bar>a\<bar> + sum_list (map (\<lambda>v. case v of None \<Rightarrow> 0 | Some x \<Rightarrow> \<bar>x\<bar>) vs) \<le> (2::rat) ^ 53"
  shows "foldl (\<lambda>a b. js_add (or_zero_number a) (or_zero (parsed b))) (Num (of_int a)) vs
           = Num (of_int a + sum_list (map (\<lambda>v. case v of None \<Rightarrow> 0 | Some x \<Rightarrow> x) vs))"
  using assms
proof (induction vs arbitrary: a)
  case Nil
  then show ?case by simp
next
  case (Cons v vs)
  have nonneg: "0 \<le> sum_list (map (\<lambda>v. case v of None \<Rightarrow> 0 | Some x \<Rightarrow> \<bar>x\<bar>) vs)"
    by (rule sum_list_nonneg) (auto split: option.splits)
  show ?case
  proof (cases v)
    case None
    with Cons.prems(2) nonneg have "(of_int \<bar>a\<bar> :: rat) \<le> of_int (2 ^ 53)" by simp
    then have a: "\<bar>a\<bar> \<le> 2 ^ 53" by (simp only: of_int_le_iff)
    have step: "js_add (or_zero_number (Num (of_int a))) (or_zero (parsed v)) = Num (of_int a)"
      using None round_double_of_int [OF a]
      by (simp add: or_zero_def parsed_def or_zero_number_Num del: or_zero_number.simps)
    from Cons.prems None have "\<forall>v \<in> set vs. case v of None \<Rightarrow> True | Some x \<Rightarrow> x = of_int \<lfloor>x\<rfloor>"
      and "of_int \<bar>a\<bar> + sum_list (map (\<lambda>v. case v of None \<Rightarrow> 0 | Some x \<Rightarrow> \<bar>x\<bar>) vs) \<le> (2::rat) ^ 53"
      by simp_all
    from Cons.IH [OF this] step None show ?thesis by simp
  next
    case (Some x)
    define b where "b = \<lfloor>x\<rfloor>"
    from Cons.prems(1) Some have x: "x = of_int b" by (simp add: b_def)
    from Cons.prems(2) Some nonneg have "\<bar>x\<bar> \<le> 2 ^ 53" by simp
    with x have "(of_int \<bar>b\<bar> :: rat) \<le> of_int (2 ^ 53)" by simp
    then have b: "\<bar>b\<bar> \<le> 2 ^ 53" by (simp only: of_int_le_iff)
    from Cons.prems(2) Some x have bound: "(of_int \<bar>a\<bar> :: rat) + of_int \<bar>b\<bar>
        + sum_list (map (\<lambda>v. case v of None \<Rightarrow> 0 | Some x \<Rightarrow> \<bar>x\<bar>) vs) \<le> 2 ^ 53"
      by simp
    have "\<bar>a + b\<bar> \<le> \<bar>a\<bar> + \<bar>b\<bar>" by simp
    then have tri: "(of_int \<bar>a + b\<bar> :: rat) \<le> of_int \<bar>a\<bar> + of_int \<bar>b\<bar>"
      by (metis of_int_add of_int_le_iff)
    with bound nonneg have "(of_int \<bar>a + b\<bar> :: rat) \<le> of_int (2 ^ 53)" by simp
    then have ab: "\<bar>a + b\<bar> \<le> 2 ^ 53" by (simp only: of_int_le_iff)
    have "or_zero (parsed v) = of_int b"
      using Some x nearest_double_of_int [OF b] by (simp add: or_zero_def parsed_def)
    then have step: "js_add (or_zero_number (Num (of_int a))) (or_zero (parsed v))
                       = Num (of_int (a + b))"
      using round_double_of_int [OF ab]
      by (simp add: or_zero_number_Num del: or_zero_number.simps)
    from Cons.prems(1) have 1: "\<forall>v \<in> set vs. case v of None \<Rightarrow> True | Some x \<Rightarrow> x = of_int \<lfloor>x\<rfloor>"
      by simp
    from bound tri have 2: "of_int \<bar>a + b\<bar>
        + sum_list (map (\<lambda>v. case v of None \<Rightarrow> 0 | Some x \<Rightarrow> \<bar>x\<bar>) vs) \<le> (2::rat) ^ 53"
      by simp
    from Cons.IH [OF 1 2] step Some x show ?thesis by simp
  qed
qed

lemma volume_integer_samples:
  assumes "integer_samples vs"
  shows "foldl (\<lambda>a b. js_add (or_zero_number a) (or_zero (parsed b))) (Num 0) vs
           = Num (sum_list (map (\<lambda>v. case v of None \<Rightarrow> 0 | Some x \<Rightarrow> x) vs))"
  using assms volume_integers [of vs 0] by (simp add: integer_samples_def)

lemma Math_max_from:
  "foldl (\<lambda>highest v. case highest of
             Num h \<Rightarrow> if h < v then Num v else Num h
           | NegInfinity \<Rightarrow> Num v
           | other \<Rightarrow> other) (Num h) vs
   = Num (fold max vs h)"
proof (induction vs arbitrary: h)
  case Nil
  then show ?case by simp
next
  case (Cons v vs)
  show ?case
  proof (cases "h < v")
    case True
    then have "max v h = v" by simp
    with True Cons.IH [of v] show ?thesis by simp
  next
    case False
    then have "max v h = h" by simp
    with False Cons.IH [of h] show ?thesis by simp
  qed
qed

lemma Math_max_eq:
  "Math_max vs = (if vs = [] then NegInfinity else Num (Max (set vs)))"
proof (cases vs)
  case Nil
  then show ?thesis by (simp add: Math_max_def)
next
  case (Cons v ws)
  have "Math_max (v # ws) = Num (fold max ws v)"
    by (simp add: Math_max_def Math_max_from)
  with Cons show ?thesis by (simp only: Max.set_eq_fold) simp
qed

lemma Math_min_from:
  "foldl (\<lambda>lowest v. case lowest of
             Num l \<Rightarrow> if v < l then Num v else Num l
           | Infinity \<Rightarrow> Num v
           | other \<Rightarrow> other) (Num l) vs
   = Num (fold min vs l)"
proof (induction vs arbitrary: l)
  case Nil
  then show ?case by simp
next
  case (Cons v vs)
  show ?case
  proof (cases "v < l")
    case True
    then have "min v l = v" by simp
    with True Cons.IH [of v] show ?thesis by simp
  next
    case False
    then have "min v l = l" by simp
    with False Cons.IH [of l] show ?thesis by simp
  qed
qed

lemma Math_min_eq:
  "Math_min vs = (if vs = [] then Infinity else Num (Min (set vs)))"
proof (cases vs)
  case Nil
  then show ?thesis by (simp add: Math_min_def)
next
  case (Cons v ws)
  have "Math_min (v # ws) = Num (fold min ws v)"
    by (simp add: Math_min_def Math_min_from)
  with Cons show ?thesis by (simp only: Min.set_eq_fold) simp
qed

lemma chart_response_inject:
  "chart_response st m qt qs rest = chart_response st' m' qt' qs' rest'
   \<longleftrightarrow> st = st' \<and> m = m' \<and> qt = qt' \<and> qs = qs' \<and> rest = rest'"
  by (auto simp: chart_response_def)

lemma quote_record_fields:
  "symbol (quote_record s m qt cp pc) = s"
  "name (quote_record s m qt cp pc) = or_default (or_str (longName m) (shortName m)) s"
  "ltp (quote_record s m qt cp pc) = toFixed2 cp"
  "change (quote_record s m qt cp pc) = toFixed2_number (js_sub cp pc)"
  "percent (quote_record s m qt cp pc)
     = toFixed2_number (js_mul (js_div (js_sub cp pc) pc) 100)"
  "exchange (quote_record s m qt cp pc)
     = or_default (or_str (exchangeName m) (yahoo_meta.exchange m)) ''Unknown''"
  "previousClose (quote_record s m qt cp pc) = toFixed2 pc"
  "high (quote_record s m qt cp pc)
     = (case yahoo_quote.high qt of Some hs \<Rightarrow> Math_max (filter_non_null hs) | None \<Rightarrow> Num cp)"
  "low (quote_record s m qt cp pc)
     = (case yahoo_quote.low qt of Some ls \<Rightarrow> Math_min (filter_non_null ls) | None \<Rightarrow> Num cp)"
  "volume (quote_record s m qt cp pc)
     = (case yahoo_quote.volume qt of
          Some vs \<Rightarrow> foldl (\<lambda>a b. js_add (or_zero_number a) (or_zero (parsed b))) (Num 0) vs
        | None \<Rightarrow> Num 0)"
  by (simp_all add: quote_record_def Let_def)

section \<open>Properties of fetchStockData\<close>

text \<open>
  C3, as the code has it. Every quote that \<open>fetchStockData\<close> returns comes from a response
  with a current price \<open>cp\<close> and a previous close \<open>pc\<close>, and its derived fields are
  computed in double precision from these unrounded upstream values, each rounded to two
  digits on its own: \<open>ltp = round2 cp\<close>, \<open>change = round2 (cp - pc)\<close> and
  \<open>percent = round2 ((cp - pc) / pc * 100)\<close>. The stored (rounded) \<open>ltp\<close> and \<open>change\<close>
  take no part in deriving \<open>change\<close> and \<open>percent\<close>.
\<close>

theorem fetchStockData_derived_fields:
  assumes "fetchStockData s outcome = Some q"
  shows "\<exists>st m qt qs rest cp pc.
           outcome = chart_response st m qt qs rest
         \<and> current_price m (Some qt) = Inr (Some cp)
         \<and> previous_close m = Some pc
         \<and> ltp q = toFixed2 cp
         \<and> previousClose q = toFixed2 pc
         \<and> change q = toFixed2_number (js_sub cp pc)
         \<and> percent q = toFixed2_number (js_mul (js_div (js_sub cp pc) pc) 100)"
proof -
  from fetchStockData_Some [OF assms] obtain st m qt qs rest cp pc where
    shape: "outcome = chart_response st m qt qs rest"
    and cp: "current_price m (Some qt) = Inr (Some cp)"
    and pc: "previous_close m = Some pc"
    and q: "q = quote_record s m qt cp pc"
    by blast
  from q have "ltp q = toFixed2 cp" "previousClose q = toFixed2 pc"
    "change q = toFixed2_number (js_sub cp pc)"
    "percent q = toFixed2_number (js_mul (js_div (js_sub cp pc) pc) 100)"
    by (simp_all add: quote_record_fields)
  with shape cp pc show ?thesis by blast
qed

theorem fetchStockData_derived_fields_witness:
  "fetchStockData ''TCS.NS'' example_response
     = Some \<lparr> symbol = ''TCS.NS'', name = ''TCS.NS'', ltp = 100, change = Num 10,
              percent = Num (1112 / 100), exchange = ''Unknown'', previousClose = 90,
              high = Num (101456 / 1000), low = Num (98765 / 1000), volume = Num 150 \<rparr>
   \<and> current_price example_meta (Some example_quote) = Inr (Some (nearest_double (100004 / 1000)))
   \<and> previous_close example_meta = Some 90
   \<and> toFixed2 (nearest_double (100004 / 1000)) = 100
   \<and> toFixed2_number (js_sub (nearest_double (100004 / 1000)) 90) = Num 10
   \<and> toFixed2_number (js_mul (js_div (js_sub (nearest_double (100004 / 1000)) 90) 90) 100)
       = Num (1112 / 100)
   \<and> fetchStockData ''TCS.NS'' (chart_response 200 binary_meta example_quote [] [])
     = Some \<lparr> symbol = ''TCS.NS'', name = ''TCS.NS'', ltp = 183, change = Num 23,
              percent = Num (1437 / 100), exchange = ''Unknown'', previousClose = 160,
              high = Num (101456 / 1000), low = Num (98765 / 1000), volume = Num 150 \<rparr>"
proof -
  let ?q = "\<lparr> symbol = ''TCS.NS'', name = ''TCS.NS'', ltp = 100, change = Num 10,
              percent = Num (1112 / 100), exchange = ''Unknown'', previousClose = 90,
              high = Num (101456 / 1000), low = Num (98765 / 1000), volume = Num 150 \<rparr>"
  have ex: "fetchStockData ''TCS.NS'' example_response = Some ?q"
    by (rule fetchStockData_example)
  from fetchStockData_derived_fields [OF ex] obtain st m qt qs rest cp pc where
    shape: "example_response = chart_response st m qt qs rest"
    and cp: "current_price m (Some qt) = Inr (Some cp)"
    and pc: "previous_close m = Some pc"
    and fields: "ltp ?q = toFixed2 cp" "change ?q = toFixed2_number (js_sub cp pc)"
      "percent ?q = toFixed2_number (js_mul (js_div (js_sub cp pc) pc) 100)"
    by blast
  from shape have m: "m = example_meta" and qt: "qt = example_quote"
    by (simp_all add: example_response_def chart_response_inject)
  have cp': "current_price example_meta (Some example_quote)
               = Inr (Some (nearest_double (100004 / 1000)))"
    by (rule example_prices)
  have pc': "previous_close example_meta = Some 90"
    by (rule example_prices)
  have cpv: "cp = nearest_double (100004 / 1000)"
    using cp [unfolded m qt cp'] by (simp only: sum.inject option.inject)
  have pcv: "pc = 90"
    using pc [unfolded m pc'] by (simp only: option.inject)
  have "toFixed2 (nearest_double (100004 / 1000)) = 100"
    "toFixed2_number (js_sub (nearest_double (100004 / 1000)) 90) = Num 10"
    "toFixed2_number (js_mul (js_div (js_sub (nearest_double (100004 / 1000)) 90) 90) 100)
       = Num (1112 / 100)"
    using fields [unfolded cpv pcv] by simp_all
  with ex cp' pc' fetchStockData_binary [of "''TCS.NS''"] show ?thesis by simp
qed

text \<open>
  The claim itself fails at its own example: for an upstream last price of 100.004 and a
  previous close of 90 the record holds \<open>change = 10\<close> and \<open>percent = 11.12\<close>, not
  \<open>11.11\<close>, which is what rounding \<open>change / previousClose * 100\<close> gives when the stored
  \<open>change\<close> is used.
\<close>

theorem fetchStockData_percent_example:
  "map_option change (fetchStockData ''TCS.NS'' example_response) = Some (Num 10)
   \<and> map_option percent (fetchStockData ''TCS.NS'' example_response) = Some (Num (1112 / 100))
   \<and> map_option percent (fetchStockData ''TCS.NS'' example_response) \<noteq> Some (Num (1111 / 100))
   \<and> toFixed2_number (js_mul (js_div (Num 10) 90) 100) = Num (1111 / 100)"
  using stored_change_percent by (simp add: fetchStockData_example)

text \<open>
  C4, as the code has it. For every quote that \<open>fetchStockData\<close> returns, \<open>volume\<close> is
  \<open>0\<close> when the first quote block has no volume series, and otherwise the sum of its
  samples taken from left to right in double precision, every \<open>null\<close> sample counted as
  zero. When the samples are integers whose magnitudes add up to at most \<open>2^53\<close>, this is
  their exact sum.
\<close>

theorem fetchStockData_volume:
  assumes "fetchStockData s outcome = Some q"
  shows "\<exists>st m qt qs rest.
           outcome = chart_response st m qt qs rest
         \<and> (case yahoo_quote.volume qt of
               None \<Rightarrow> volume q = Num 0
             | Some vs \<Rightarrow>
                 volume q = foldl (\<lambda>a b. js_add a (or_zero (parsed b))) (Num 0) vs
               \<and> (integer_samples vs \<longrightarrow>
                    volume q = Num (sum_list (map (\<lambda>v. case v of None \<Rightarrow> 0 | Some x \<Rightarrow> x) vs))))"
proof -
  from fetchStockData_Some [OF assms] obtain st m qt qs rest cp pc where
    shape: "outcome = chart_response st m qt qs rest"
    and q: "q = quote_record s m qt cp pc"
    by blast
  have "case yahoo_quote.volume qt of
               None \<Rightarrow> volume q = Num 0
             | Some vs \<Rightarrow>
                 volume q = foldl (\<lambda>a b. js_add a (or_zero (parsed b))) (Num 0) vs
               \<and> (integer_samples vs \<longrightarrow>
                    volume q = Num (sum_list (map (\<lambda>v. case v of None \<Rightarrow> 0 | Some x \<Rightarrow> x) vs)))"
  proof (cases "yahoo_quote.volume qt")
    case None
    with q show ?thesis by (simp add: quote_record_fields)
  next
    case (Some vs)
    with q have v: "volume q
        = foldl (\<lambda>a b. js_add (or_zero_number a) (or_zero (parsed b))) (Num 0) vs"
      by (simp add: quote_record_fields)
    have "volume q = foldl (\<lambda>a b. js_add a (or_zero (parsed b))) (Num 0) vs"
      unfolding v by (rule volume_accumulator) simp
    moreover have "integer_samples vs \<longrightarrow>
        volume q = Num (sum_list (map (\<lambda>v. case v of None \<Rightarrow> 0 | Some x \<Rightarrow> x) vs))"
      unfolding v by (simp add: volume_integer_samples)
    ultimately show ?thesis using Some by simp
  qed
  with shape show ?thesis by blast
qed

theorem fetchStockData_volume_witness:
  "fetchStockData ''TCS.NS'' example_response
     = Some \<lparr> symbol = ''TCS.NS'', name = ''TCS.NS'', ltp = 100, change = Num 10,
              percent = Num (1112 / 100), exchange = ''Unknown'', previousClose = 90,
              high = Num (101456 / 1000), low = Num (98765 / 1000), volume = Num 150 \<rparr>
   \<and> yahoo_quote.volume example_quote = Some [Some 100, None, Some 50]
   \<and> integer_samples [Some 100, None, Some 50]
   \<and> sum_list (map (\<lambda>v. case v of None \<Rightarrow> 0 | Some x \<Rightarrow> x) [Some 100, None, Some (50::rat)]) = 150
   \<and> foldl (\<lambda>a b. js_add a (or_zero (parsed b))) (Num 0) [Some 100, None, Some 50] = Num 150
   \<and> yahoo_quote.volume bare_quote = None
   \<and> fetchStockData ''TCS.NS'' (chart_response 200 example_meta bare_quote [] [])
     = Some \<lparr> symbol = ''TCS.NS'', name = ''TCS.NS'', ltp = 100, change = Num 10,
              percent = Num (1112 / 100), exchange = ''Unknown'', previousClose = 90,
              high = Num (nearest_double (100004 / 1000)),
              low = Num (nearest_double (100004 / 1000)), volume = Num 0 \<rparr>"
proof -
  let ?q = "\<lparr> symbol = ''TCS.NS'', name = ''TCS.NS'', ltp = 100, change = Num 10,
              percent = Num (1112 / 100), exchange = ''Unknown'', previousClose = 90,
              high = Num (101456 / 1000), low = Num (98765 / 1000), volume = Num 150 \<rparr>"
  have ex: "fetchStockData ''TCS.NS'' example_response = Some ?q"
    by (rule fetchStockData_example)
  from fetchStockData_volume [OF ex] obtain st m qt qs rest where
    shape: "example_response = chart_response st m qt qs rest"
    and vol: "case yahoo_quote.volume qt of
               None \<Rightarrow> volume ?q = Num 0
             | Some vs \<Rightarrow>
                 volume ?q = foldl (\<lambda>a b. js_add a (or_zero (parsed b))) (Num 0) vs
               \<and> (integer_samples vs \<longrightarrow>
                    volume ?q = Num (sum_list (map (\<lambda>v. case v of None \<Rightarrow> 0 | Some x \<Rightarrow> x) vs)))"
    by blast
  from shape have qt: "qt = example_quote"
    by (simp add: example_response_def chart_response_inject)
  have v: "yahoo_quote.volume example_quote = Some [Some 100, None, Some 50]"
    by (simp add: example_quote_def)
  have i: "integer_samples [Some 100, None, Some 50]"
    by (simp add: integer_samples_def)
  from vol [unfolded qt v] i
  have "foldl (\<lambda>a b. js_add a (or_zero (parsed b))) (Num 0) [Some 100, None, Some 50] = Num 150"
    and "sum_list (map (\<lambda>v. case v of None \<Rightarrow> 0 | Some x \<Rightarrow> x) [Some 100, None, Some (50::rat)]) = 150"
    by simp_all
  moreover have "yahoo_quote.volume bare_quote = None"
    by (simp add: bare_quote_def)
  ultimately show ?thesis
    using ex v i fetchStockData_bare [of "''TCS.NS''"] by simp
qed

text \<open>
  The claim itself fails for samples whose sum is not a double: for the volume series
  \<open>[9007199254740992, 1]\<close> the record holds \<open>volume = 9007199254740992\<close>, while the
  sum of the samples is \<open>9007199254740993\<close>.
\<close>

theorem fetchStockData_volume_inexact:
  "yahoo_quote.volume large_volume_quote = Some [Some 9007199254740992, Some 1]
   \<and> map_option volume (fetchStockData ''TCS.NS'' (chart_response 200 example_meta large_volume_quote [] []))
       = Some (Num 9007199254740992)
   \<and> sum_list (map (\<lambda>v. case v of None \<Rightarrow> 0 | Some x \<Rightarrow> x)
                 [Some 9007199254740992, Some (1::rat)]) = 9007199254740993
   \<and> map_option volume (fetchStockData ''TCS.NS'' (chart_response 200 example_meta large_volume_quote [] []))
       \<noteq> Some (Num 9007199254740993)"
proof -
  have "yahoo_quote.volume large_volume_quote = Some [Some 9007199254740992, Some 1]"
    by (simp add: large_volume_quote_def)
  then show ?thesis
    by (simp add: fetchStockData_large_volume)
qed

text \<open>
  C10. For every quote that \<open>fetchStockData\<close> returns, \<open>high\<close> is the maximum and \<open>low\<close>
  the minimum of the non-\<open>null\<close> samples of the first quote block's series when the
  series is present (\<open>Math.max()\<close> and \<open>Math.min()\<close> of no sample at all being
  \<open>-Infinity\<close> and \<open>Infinity\<close>), and the current price \<open>cp\<close> itself when the series is
  absent. Neither is rounded, while \<open>ltp\<close> is \<open>cp\<close> rounded to two digits.
\<close>

theorem fetchStockData_high_low:
  assumes "fetchStockData s outcome = Some q"
  shows "\<exists>st m qt qs rest cp.
           outcome = chart_response st m qt qs rest
         \<and> current_price m (Some qt) = Inr (Some cp)
         \<and> ltp q = toFixed2 cp
         \<and> (case yahoo_quote.high qt of
               None \<Rightarrow> high q = Num cp
             | Some hs \<Rightarrow>
                 high q = (if filter_non_null hs = [] then NegInfinity
                           else Num (Max (set (filter_non_null hs)))))
         \<and> (case yahoo_quote.low qt of
               None \<Rightarrow> low q = Num cp
             | Some ls \<Rightarrow>
                 low q = (if filter_non_null ls = [] then Infinity
                          else Num (Min (set (filter_non_null ls)))))"
proof -
  from fetchStockData_Some [OF assms] obtain st m qt qs rest cp pc where
    shape: "outcome = chart_response st m qt qs rest"
    and cp: "current_price m (Some qt) = Inr (Some cp)"
    and q: "q = quote_record s m qt cp pc"
    by blast
  from q have "ltp q = toFixed2 cp" by (simp add: quote_record_fields)
  moreover from q have "case yahoo_quote.high qt of
               None \<Rightarrow> high q = Num cp
             | Some hs \<Rightarrow>
                 high q = (if filter_non_null hs = [] then NegInfinity
                           else Num (Max (set (filter_non_null hs))))"
    by (simp add: quote_record_fields Math_max_eq split: option.splits)
  moreover from q have "case yahoo_quote.low qt of
               None \<Rightarrow> low q = Num cp
             | Some ls \<Rightarrow>
                 low q = (if filter_non_null ls = [] then Infinity
                          else Num (Min (set (filter_non_null ls))))"
    by (simp add: quote_record_fields Math_min_eq split: option.splits)
  ultimately show ?thesis using shape cp by blast
qed

theorem fetchStockData_high_low_witness:
  "fetchStockData ''TCS.NS'' example_response
     = Some \<lparr> symbol = ''TCS.NS'', name = ''TCS.NS'', ltp = 100, change = Num 10,
              percent = Num (1112 / 100), exchange = ''Unknown'', previousClose = 90,
              high = Num (101456 / 1000), low = Num (98765 / 1000), volume = Num 150 \<rparr>
   \<and> yahoo_quote.high example_quote = Some [Some 101, None, Some (101456 / 1000)]
   \<and> yahoo_quote.low example_quote = Some [Some (98765 / 1000), None, Some 99]
   \<and> Max (set (filter_non_null [Some 101, None, Some (101456 / 1000 :: rat)])) = 101456 / 1000
   \<and> Min (set (filter_non_null [Some (98765 / 1000 :: rat), None, Some 99])) = 98765 / 1000
   \<and> fetchStockData ''TCS.NS'' (chart_response 200 example_meta bare_quote [] [])
     = Some \<lparr> symbol = ''TCS.NS'', name = ''TCS.NS'', ltp = 100, change = Num 10,
              percent = Num (1112 / 100), exchange = ''Unknown'', previousClose = 90,
              high = Num (nearest_double (100004 / 1000)),
              low = Num (nearest_double (100004 / 1000)), volume = Num 0 \<rparr>"
proof -
  let ?q = "\<lparr> symbol = ''TCS.NS'', name = ''TCS.NS'', ltp = 100, change = Num 10,
              percent = Num (1112 / 100), exchange = ''Unknown'', previousClose = 90,
              high = Num (101456 / 1000), low = Num (98765 / 1000), volume = Num 150 \<rparr>"
  have ex: "fetchStockData ''TCS.NS'' example_response = Some ?q"
    by (rule fetchStockData_example)
  from fetchStockData_high_low [OF ex] obtain st m qt qs rest cp where
    shape: "example_response = chart_response st m qt qs rest"
    and hi: "case yahoo_quote.high qt of
               None \<Rightarrow> high ?q = Num cp
             | Some hs \<Rightarrow>
                 high ?q = (if filter_non_null hs = [] then NegInfinity
                           else Num (Max (set (filter_non_null hs))))"
    and lo: "case yahoo_quote.low qt of
               None \<Rightarrow> low ?q = Num cp
             | Some ls \<Rightarrow>
                 low ?q = (if filter_non_null ls = [] then Infinity
                          else Num (Min (set (filter_non_null ls))))"
    by blast
  from shape have qt: "qt = example_quote"
    by (simp add: example_response_def chart_response_inject)
  have h: "yahoo_quote.high example_quote = Some [Some 101, None, Some (101456 / 1000)]"
    and l: "yahoo_quote.low example_quote = Some [Some (98765 / 1000), None, Some 99]"
    by (simp_all add: example_quote_def)
  from hi [unfolded qt h]
  have 1: "Max (set (filter_non_null [Some 101, None, Some (101456 / 1000 :: rat)])) = 101456 / 1000"
    by simp
  from lo [unfolded qt l]
  have 2: "Min (set (filter_non_null [Some (98765 / 1000 :: rat), None, Some 99])) = 98765 / 1000"
    by simp
  from ex h l 1 2 fetchStockData_bare [of "''TCS.NS''"] show ?thesis by simp
qed

text \<open>
  C5. Malformed-response policy. When \<open>fetchStockData\<close> succeeds on a response, it
  also succeeds on the same response with the descriptive fields (long and short name,
  exchange name and exchange) removed, and returns the same quote with \<open>name\<close> set to the
  requested symbol and \<open>exchange\<close> set to \<open>Unknown\<close>. When the response has no regular
  market price and the close series is absent, empty or ends in \<open>null\<close>, the fetch
  returns \<open>null\<close>, not a partial record.
\<close>

theorem fetchStockData_fallbacks:
  "(fetchStockData s (chart_response st m qt qs rest) = Some q \<longrightarrow>
      fetchStockData s
        (chart_response st
           (m \<lparr> longName := None, shortName := None, exchangeName := None,
                yahoo_meta.exchange := None \<rparr>) qt qs rest)
      = Some (q \<lparr> name := s, exchange := ''Unknown'' \<rparr>))
   \<and> (regularMarketPrice m = None \<and> no_usable_close qt \<longrightarrow>
        fetchStockData s (chart_response st m qt qs rest) = None)"
proof (intro conjI impI)
  let ?m = "m \<lparr> longName := None, shortName := None, exchangeName := None,
                yahoo_meta.exchange := None \<rparr>"
  assume "fetchStockData s (chart_response st m qt qs rest) = Some q"
  from fetchStockData_chart_response_Some [OF this] obtain cp pc where
    cp: "current_price m (Some qt) = Inr (Some cp)"
    and pc: "previous_close m = Some pc"
    and q: "q = quote_record s m qt cp pc"
    by blast
  have "current_price ?m (Some qt) = current_price m (Some qt)"
    by (simp add: current_price_def)
  with cp have cp': "current_price ?m (Some qt) = Inr (Some cp)"
    by simp
  from pc have pc': "previous_close ?m = Some pc"
    by (simp add: previous_close_def)
  have "quote_record s ?m qt cp pc = (quote_record s m qt cp pc) \<lparr> name := s, exchange := ''Unknown'' \<rparr>"
    by (simp add: quote_record_def Let_def or_default_def or_str_def)
  with cp' pc' q show "fetchStockData s (chart_response st ?m qt qs rest)
      = Some (q \<lparr> name := s, exchange := ''Unknown'' \<rparr>)"
    by (simp add: fetchStockData_def fetchStockData_try_chart_response)
next
  assume a: "regularMarketPrice m = None \<and> no_usable_close qt"
  then have "current_price m (Some qt) = Inl TypeError \<or> current_price m (Some qt) = Inr None"
    by (auto simp: current_price_def no_usable_close_def parsed_def split: option.splits)
  then show "fetchStockData s (chart_response st m qt qs rest) = None"
    by (auto simp: fetchStockData_def fetchStockData_try_chart_response)
qed

theorem fetchStockData_fallbacks_witness:
  "fetchStockData ''TCS.NS'' (chart_response 200 named_meta example_quote [] [])
     = Some \<lparr> symbol = ''TCS.NS'', name = ''Tata Consultancy Services Limited'', ltp = 100,
              change = Num 10, percent = Num (1112 / 100), exchange = ''NSI'', previousClose = 90,
              high = Num (101456 / 1000), low = Num (98765 / 1000), volume = Num 150 \<rparr>
   \<and> fetchStockData ''TCS.NS''
        (chart_response 200
           (named_meta \<lparr> longName := None, shortName := None, exchangeName := None,
                         yahoo_meta.exchange := None \<rparr>) example_quote [] [])
     = Some \<lparr> symbol = ''TCS.NS'', name = ''TCS.NS'', ltp = 100,
              change = Num 10, percent = Num (1112 / 100), exchange = ''Unknown'', previousClose = 90,
              high = Num (101456 / 1000), low = Num (98765 / 1000), volume = Num 150 \<rparr>
   \<and> regularMarketPrice priceless_meta = None
   \<and> no_usable_close priceless_quote
   \<and> fetchStockData ''TCS.NS'' (chart_response 200 priceless_meta priceless_quote [] []) = None"
proof -
  have named: "fetchStockData ''TCS.NS'' (chart_response 200 named_meta example_quote [] [])
     = Some \<lparr> symbol = ''TCS.NS'', name = ''Tata Consultancy Services Limited'', ltp = 100,
              change = Num 10, percent = Num (1112 / 100), exchange = ''NSI'', previousClose = 90,
              high = Num (101456 / 1000), low = Num (98765 / 1000), volume = Num 150 \<rparr>"
    by (rule fetchStockData_named)
  have p: "regularMarketPrice priceless_meta = None"
    by (simp add: priceless_meta_def)
  have c: "no_usable_close priceless_quote"
    by (simp add: priceless_quote_def no_usable_close_def)
  from fetchStockData_fallbacks
         [where s = "''TCS.NS''" and st = 200 and m = named_meta and qt = example_quote
            and qs = "[]" and rest = "[]"] named
  have 1: "fetchStockData ''TCS.NS''
        (chart_response 200
           (named_meta \<lparr> longName := None, shortName := None, exchangeName := None,
                         yahoo_meta.exchange := None \<rparr>) example_quote [] [])
     = Some \<lparr> symbol = ''TCS.NS'', name = ''TCS.NS'', ltp = 100,
              change = Num 10, percent = Num (1112 / 100), exchange = ''Unknown'', previousClose = 90,
              high = Num (101456 / 1000), low = Num (98765 / 1000), volume = Num 150 \<rparr>"
    by simp
  from fetchStockData_fallbacks
         [where s = "''TCS.NS''" and st = 200 and m = priceless_meta and qt = priceless_quote
            and qs = "[]" and rest = "[]"] p c
  have 2: "fetchStockData ''TCS.NS'' (chart_response 200 priceless_meta priceless_quote [] []) = None"
    by blast
  from named 1 p c 2 show ?thesis by simp
qed

text \<open>
  C6, as the code has it. \<open>fetchStockData\<close> returns \<open>null\<close> exactly when its \<open>try\<close>
  block raises, whatever is raised: a rejected request, a non-success HTTP status, a body
  that is not JSON, a document without a result array, and an empty result array all end
  in the same \<open>null\<close>, which carries no reason. The error raised goes to the console
  only; for an empty result array it is the error with the message
  \<open>No data available for this symbol\<close>.
\<close>

theorem fetchStockData_failure_sentinel:
  "(fetchStockData s outcome = None \<longleftrightarrow> (\<exists>e. fetchStockData_try s outcome = Inl e))
   \<and> (\<forall>e. fetchStockData_try s outcome = Inl e \<longrightarrow>
          fetchStockData_console s outcome = [(''Error fetching stock '' @ s @ '':'', e)])
   \<and> (outcome = Rejected \<longrightarrow> fetchStockData s outcome = None)
   \<and> (\<forall>response. outcome = Resolved response \<and> \<not> ok response \<longrightarrow>
          fetchStockData_try s outcome
            = Inl (HttpError (''Failed to fetch '' @ s @ '': '') (status response))
        \<and> fetchStockData s outcome = None)
   \<and> (\<forall>response. outcome = Resolved response \<and> ok response \<and> json response = None \<longrightarrow>
          fetchStockData s outcome = None)
   \<and> (\<forall>response data. outcome = Resolved response \<and> ok response \<and> json response = Some data
          \<and> (chart data = None \<or> (\<exists>c. chart data = Some c \<and> result c = None)) \<longrightarrow>
          fetchStockData s outcome = None)
   \<and> (\<forall>response data c. outcome = Resolved response \<and> ok response \<and> json response = Some data
          \<and> chart data = Some c \<and> result c = Some [] \<longrightarrow>
          fetchStockData_try s outcome = Inl (Error ''No data available for this symbol'')
        \<and> fetchStockData_console s outcome
            = [(''Error fetching stock '' @ s @ '':'', Error ''No data available for this symbol'')]
        \<and> fetchStockData s outcome = None)"
proof -
  have 1: "fetchStockData s outcome = None \<longleftrightarrow> (\<exists>e. fetchStockData_try s outcome = Inl e)"
    by (cases "fetchStockData_try s outcome") (simp_all add: fetchStockData_def)
  have 2: "\<forall>e. fetchStockData_try s outcome = Inl e \<longrightarrow>
          fetchStockData_console s outcome = [(''Error fetching stock '' @ s @ '':'', e)]"
    by (simp add: fetchStockData_console_def)
  have 3: "outcome = Rejected \<longrightarrow> fetchStockData s outcome = None"
    by (simp add: fetchStockData_def fetchStockData_try_def)
  have 4: "\<forall>response. outcome = Resolved response \<and> \<not> ok response \<longrightarrow>
          fetchStockData_try s outcome
            = Inl (HttpError (''Failed to fetch '' @ s @ '': '') (status response))
        \<and> fetchStockData s outcome = None"
    by (simp add: fetchStockData_def fetchStockData_try_def)
  have 5: "\<forall>response. outcome = Resolved response \<and> ok response \<and> json response = None \<longrightarrow>
          fetchStockData s outcome = None"
    by (simp add: fetchStockData_def fetchStockData_try_def)
  have 6: "\<forall>response data. outcome = Resolved response \<and> ok response \<and> json response = Some data
          \<and> (chart data = None \<or> (\<exists>c. chart data = Some c \<and> result c = None)) \<longrightarrow>
          fetchStockData s outcome = None"
    by (auto simp: fetchStockData_def fetchStockData_try_def)
  have 7: "\<forall>response data c. outcome = Resolved response \<and> ok response \<and> json response = Some data
          \<and> chart data = Some c \<and> result c = Some [] \<longrightarrow>
          fetchStockData_try s outcome = Inl (Error ''No data available for this symbol'')
        \<and> fetchStockData_console s outcome
            = [(''Error fetching stock '' @ s @ '':'', Error ''No data available for this symbol'')]
        \<and> fetchStockData s outcome = None"
    by (simp add: fetchStockData_def fetchStockData_console_def fetchStockData_try_def)
  show ?thesis
    by (intro conjI) (rule 1 2 3 4 5 6 7)+
qed

theorem fetchStockData_failure_sentinel_witness:
  "fetchStockData_try ''BADSYM'' empty_result_response = Inl (Error ''No data available for this symbol'')
   \<and> fetchStockData_console ''BADSYM'' empty_result_response
       = [(''Error fetching stock BADSYM:'', Error ''No data available for this symbol'')]
   \<and> fetchStockData ''BADSYM'' empty_result_response = None
   \<and> fetchStockData_try ''BADSYM'' not_found_response = Inl (HttpError ''Failed to fetch BADSYM: '' 404)
   \<and> fetchStockData ''BADSYM'' not_found_response = None
   \<and> fetchStockData ''BADSYM'' Rejected = None"
proof -
  note t = fetchStockData_failure_sentinel
  let ?d = "\<lparr> chart = Some \<lparr> result = Some [] \<rparr> \<rparr>"
  let ?r = "\<lparr> ok = True, status = 200, json = Some ?d \<rparr>"
  have "empty_result_response = Resolved ?r \<and> ok ?r \<and> json ?r = Some ?d
        \<and> chart ?d = Some \<lparr> result = Some [] \<rparr>
        \<and> result \<lparr> result = Some [] \<rparr> = Some []"
    by (simp add: empty_result_response_def)
  with t [of "''BADSYM''" empty_result_response]
  have "fetchStockData_try ''BADSYM'' empty_result_response = Inl (Error ''No data available for this symbol'')
        \<and> fetchStockData_console ''BADSYM'' empty_result_response
            = [(''Error fetching stock '' @ ''BADSYM'' @ '':'', Error ''No data available for this symbol'')]
        \<and> fetchStockData ''BADSYM'' empty_result_response = None"
    by blast
  then have 1: "fetchStockData_try ''BADSYM'' empty_result_response = Inl (Error ''No data available for this symbol'')
        \<and> fetchStockData_console ''BADSYM'' empty_result_response
            = [(''Error fetching stock BADSYM:'', Error ''No data available for this symbol'')]
        \<and> fetchStockData ''BADSYM'' empty_result_response = None"
    by simp
  let ?n = "\<lparr> ok = False, status = 404, json = None :: yahoo_data option \<rparr>"
  have "not_found_response = Resolved ?n \<and> \<not> ok ?n"
    by (simp add: not_found_response_def)
  with t [of "''BADSYM''" not_found_response]
  have "fetchStockData_try ''BADSYM'' not_found_response
            = Inl (HttpError (''Failed to fetch '' @ ''BADSYM'' @ '': '') (status ?n))
        \<and> fetchStockData ''BADSYM'' not_found_response = None"
    by blast
  then have 2: "fetchStockData_try ''BADSYM'' not_found_response = Inl (HttpError ''Failed to fetch BADSYM: '' 404)
        \<and> fetchStockData ''BADSYM'' not_found_response = None"
    by simp
  from t [of "''BADSYM''" Rejected]
  have 3: "fetchStockData ''BADSYM'' Rejected = None" by blast
  from 1 2 3 show ?thesis by simp
qed

text \<open>
  The claim itself fails where it says that the outcome carries the reason: for a
  response without result entries the value returned is \<open>null\<close>, the very value returned
  for HTTP 404 and for a rejected request.
\<close>

theorem fetchStockData_no_reason:
  "fetchStockData ''BADSYM'' empty_result_response = None
   \<and> fetchStockData ''BADSYM'' empty_result_response = fetchStockData ''BADSYM'' not_found_response
   \<and> fetchStockData ''BADSYM'' empty_result_response = fetchStockData ''BADSYM'' Rejected"
  by (simp add: fetchStockData_def fetchStockData_try_def empty_result_response_def
        not_found_response_def)

section \<open>The result object of a batch\<close>

lemma fold_results:
  "fold (\<lambda>(index, s) obj.
           set_property obj s (batch_entry (map (\<lambda>(index, s). f index s) (enumerate 0 xs) ! index)))
        (enumerate 0 xs) init
   = fold (\<lambda>(index, s) obj. set_property obj s (batch_entry (f index s))) (enumerate 0 xs) init"
proof (rule fold_cong)
  fix p assume "p \<in> set (enumerate 0 xs)"
  then have "fst p < length xs" and "xs ! fst p = snd p"
    by (simp_all add: in_set_enumerate_eq)
  then show "(case p of (index, s) \<Rightarrow> \<lambda>obj.
                set_property obj s (batch_entry (map (\<lambda>(index, s). f index s) (enumerate 0 xs) ! index)))
     = (case p of (index, s) \<Rightarrow> \<lambda>obj. set_property obj s (batch_entry (f index s)))"
    by (cases p) (simp add: nth_enumerate_eq)
qed simp_all

lemma fold_store_snoc:
  "fold (\<lambda>(index, s) obj. set_property obj s (g index s)) (enumerate n (xs @ [x])) init
   = set_property (fold (\<lambda>(index, s) obj. set_property obj s (g index s)) (enumerate n xs) init)
       x (g (n + length xs) x)"
  by (simp add: enumerate_append_eq)

lemma dom_set_property:
  "dom (set_property obj k v) = dom obj \<union> ({k} - {''__proto__''})"
  by (simp add: set_property_def)

lemma dom_fold_store:
  "dom (fold (\<lambda>(index, s) obj. set_property obj s (g index s)) (enumerate n xs) init)
     = dom init \<union> (set xs - {''__proto__''})"
proof (induction xs rule: rev_induct)
  case Nil
  then show ?case by simp
next
  case (snoc x xs)
  then show ?case
    unfolding fold_store_snoc dom_set_property by auto
qed

lemma fold_store_reserved:
  "fold (\<lambda>(index, s) obj. set_property obj s (g index s)) (enumerate n xs) init ''__proto__''
     = init ''__proto__''"
proof (induction xs rule: rev_induct)
  case Nil
  then show ?case by simp
next
  case (snoc x xs)
  then show ?case
    unfolding fold_store_snoc by (simp add: set_property_def)
qed

lemma fold_store_last:
  "i < length xs \<Longrightarrow> xs ! i \<noteq> ''__proto__'' \<Longrightarrow>
   \<forall>j. i < j \<and> j < length xs \<longrightarrow> xs ! j \<noteq> xs ! i \<Longrightarrow>
   fold (\<lambda>(index, s) obj. set_property obj s (g index s)) (enumerate n xs) init (xs ! i)
     = Some (g (n + i) (xs ! i))"
proof (induction xs arbitrary: i rule: rev_induct)
  case Nil
  then show ?case by simp
next
  case (snoc x xs)
  show ?case
  proof (cases "i = length xs")
    case True
    with snoc.prems(2) have "x \<noteq> ''__proto__''" by simp
    with True show ?thesis
      unfolding fold_store_snoc by (simp add: set_property_def)
  next
    case False
    with snoc.prems have i: "i < length xs" by simp
    from i have nth: "(xs @ [x]) ! i = xs ! i" by (simp add: nth_append)
    from snoc.prems(2) nth have ok: "xs ! i \<noteq> ''__proto__''" by simp
    have later: "\<forall>j. i < j \<and> j < length xs \<longrightarrow> xs ! j \<noteq> xs ! i"
    proof (intro allI impI)
      fix j assume j: "i < j \<and> j < length xs"
      with snoc.prems(3) have "(xs @ [x]) ! j \<noteq> (xs @ [x]) ! i" by simp
      with i j show "xs ! j \<noteq> xs ! i" by (simp add: nth_append)
    qed
    from snoc.prems(3) i have "(xs @ [x]) ! length xs \<noteq> (xs @ [x]) ! i"
      by (metis length_append_singleton lessI)
    with nth have neq: "x \<noteq> xs ! i" by simp
    have "set_property (fold (\<lambda>(index, s) obj. set_property obj s (g index s)) (enumerate n xs) init)
            x (g (n + length xs) x) (xs ! i)
          = fold (\<lambda>(index, s) obj. set_property obj s (g index s)) (enumerate n xs) init (xs ! i)"
      using neq by (simp add: set_property_def)
    then show ?thesis
      unfolding nth fold_store_snoc using snoc.IH [OF i ok later] by simp
  qed
qed

lemma fetchBatchStocks_try_Array:
  "fetchBatchStocks_try (Array S) upstream =
     Inr (fold (\<lambda>(index, s) obj. set_property obj s (batch_entry (fetchStockData s (upstream index s))))
               (enumerate 0 S) Map.empty)"
  unfolding fetchBatchStocks_try_def Let_def by (simp add: fold_results)

lemma fetchBatchStocks_Array:
  "fetchBatchStocks (Array S) upstream =
     fold (\<lambda>(index, s) obj. set_property obj s (batch_entry (fetchStockData s (upstream index s))))
          (enumerate 0 S) Map.empty"
  unfolding fetchBatchStocks_def by (simp add: fetchBatchStocks_try_Array)

lemma fetchBatchStocks_completes:
  "fetchBatchStocks_try (Array S) upstream = Inr (fetchBatchStocks (Array S) upstream)"
  by (simp only: fetchBatchStocks_Array fetchBatchStocks_try_Array)

lemma dom_fetchBatchStocks:
  "dom (fetchBatchStocks (Array S) upstream) = set S - {''__proto__''}"
  by (simp add: fetchBatchStocks_Array dom_fold_store)

lemma fetchBatchStocks_last:
  "i < length S \<Longrightarrow> S ! i \<noteq> ''__proto__'' \<Longrightarrow>
   \<forall>j. i < j \<and> j < length S \<longrightarrow> S ! j \<noteq> S ! i \<Longrightarrow>
   fetchBatchStocks (Array S) upstream (S ! i)
     = Some (batch_entry (fetchStockData (S ! i) (upstream i (S ! i))))"
  using fold_store_last
          [where i = i and xs = S and n = 0 and init = Map.empty
             and g = "\<lambda>index s. batch_entry (fetchStockData s (upstream index s))"]
  by (simp add: fetchBatchStocks_Array)

lemma fetchBatchStocks_reserved:
  "fetchBatchStocks (Array S) upstream ''__proto__'' = None"
  by (simp add: fetchBatchStocks_Array fold_store_reserved)

section \<open>Properties of fetchBatchStocks\<close>










lemma last_occurrence:
  "s \<in> set xs \<Longrightarrow> \<exists>i < length xs. xs ! i = s \<and> (\<forall>j. i < j \<and> j < length xs \<longrightarrow> xs ! j \<noteq> s)"
proof (induction xs rule: rev_induct)
  case Nil
  then show ?case by simp
next
  case (snoc x xs)
  show ?case
  proof (cases "s = x")
    case True
    then have "(xs @ [x]) ! length xs = s" by simp
    moreover have "\<forall>j. length xs < j \<and> j < length (xs @ [x]) \<longrightarrow> (xs @ [x]) ! j \<noteq> s"
      by auto
    moreover have "length xs < length (xs @ [x])" by simp
    ultimately show ?thesis by blast
  next
    case False
    with snoc.prems have "s \<in> set xs" by simp
    from snoc.IH [OF this] obtain i where i: "i < length xs" "xs ! i = s"
      and later: "\<forall>j. i < j \<and> j < length xs \<longrightarrow> xs ! j \<noteq> s" by blast
    have "\<forall>j. i < j \<and> j < length (xs @ [x]) \<longrightarrow> (xs @ [x]) ! j \<noteq> s"
    proof (intro allI impI)
      fix j assume j: "i < j \<and> j < length (xs @ [x])"
      show "(xs @ [x]) ! j \<noteq> s"
      proof (cases "j < length xs")
        case True
        with later j show ?thesis by (simp add: nth_append)
      next
        case False
        with j have "j = length xs" by simp
        with \<open>s \<noteq> x\<close> show ?thesis by simp
      qed
    qed
    moreover from i have "i < length (xs @ [x])" "(xs @ [x]) ! i = s"
      by (simp_all add: nth_append)
    ultimately show ?thesis by blast
  qed
qed

lemma fetchBatchStocks_all_failed:
  assumes "s \<in> set S" and "s \<noteq> ''__proto__''"
    and "\<forall>i < length S. S ! i = s \<longrightarrow> fetchStockData s (upstream i s) = None"
  shows "fetchBatchStocks (Array S) upstream s = Some (ErrorMarker ''Failed to fetch'')"
proof -
  from last_occurrence [OF assms(1)] obtain i where i: "i < length S" "S ! i = s"
    and later: "\<forall>j. i < j \<and> j < length S \<longrightarrow> S ! j \<noteq> S ! i" by blast
  from assms(3) i have "fetchStockData (S ! i) (upstream i (S ! i)) = None" by blast
  moreover from assms(2) i have "S ! i \<noteq> ''__proto__''" by simp
  ultimately show ?thesis
    using fetchBatchStocks_last [OF i(1) _ later, of upstream] i(2)
    by (simp add: batch_entry_def)
qed

text \<open>
  C7, as the code has it. In the direct client the \<open>try\<close> block of \<open>fetchBatchStocks\<close>
  completes for every array of symbols, whatever the individual fetches do, and a symbol
  other than the reserved property name all of whose fetches failed is delivered as the
  error marker inside the object; the handler runs (and \<open>{}\<close> is returned) exactly for
  an argument without a \<open>map\<close> method. In the backend client the handler runs, and
  \<open>{}\<close> is returned, whenever the one batch request is rejected, gets a non-success
  status, or has a body that is not JSON or is \<open>null\<close>.
\<close>

theorem fetchBatchStocks_failure_conditions:
  "(\<forall>S. fetchBatchStocks_try (Array S) upstream = Inr (fetchBatchStocks (Array S) upstream)
        \<and> (\<forall>s \<in> set S. s \<noteq> ''__proto__''
              \<and> (\<forall>i < length S. S ! i = s \<longrightarrow> fetchStockData s (upstream i s) = None) \<longrightarrow>
              fetchBatchStocks (Array S) upstream s = Some (ErrorMarker ''Failed to fetch'')))
   \<and> ((\<exists>e. fetchBatchStocks_try arg upstream = Inl e)
        \<longleftrightarrow> (arg = NotArray \<or> arg = NotSerializable))
   \<and> ((\<exists>e. fetchBatchStocks_try arg upstream = Inl e)
        \<longrightarrow> dom (fetchBatchStocks arg upstream) = {})
   \<and> (backend arg = Rejected
        \<or> (\<exists>r. backend arg = Resolved r \<and> (\<not> ok r \<or> json r = None \<or> json r = Some None))
        \<longrightarrow> (\<exists>e. fetchBatchStocks_backend_try arg backend = Inl e)
          \<and> dom (fetchBatchStocks_backend arg backend) = {})"
proof -
  have direct: "\<forall>S. fetchBatchStocks_try (Array S) upstream = Inr (fetchBatchStocks (Array S) upstream)
        \<and> (\<forall>s \<in> set S. s \<noteq> ''__proto__''
              \<and> (\<forall>i < length S. S ! i = s \<longrightarrow> fetchStockData s (upstream i s) = None) \<longrightarrow>
              fetchBatchStocks (Array S) upstream s = Some (ErrorMarker ''Failed to fetch''))"
  proof (intro allI conjI ballI impI)
    fix S
    show "fetchBatchStocks_try (Array S) upstream = Inr (fetchBatchStocks (Array S) upstream)"
      by (rule fetchBatchStocks_completes)
  next
    fix S s
    assume "s \<in> set S"
      and "s \<noteq> ''__proto__''
           \<and> (\<forall>i < length S. S ! i = s \<longrightarrow> fetchStockData s (upstream i s) = None)"
    then show "fetchBatchStocks (Array S) upstream s = Some (ErrorMarker ''Failed to fetch'')"
      using fetchBatchStocks_all_failed [of s S upstream] by blast
  qed
  have malformed: "(\<exists>e. fetchBatchStocks_try arg upstream = Inl e)
        \<longleftrightarrow> (arg = NotArray \<or> arg = NotSerializable)"
    by (cases arg) (simp_all add: fetchBatchStocks_try_def Let_def)
  have handler: "(\<exists>e. fetchBatchStocks_try arg upstream = Inl e)
        \<longrightarrow> dom (fetchBatchStocks arg upstream) = {}"
    by (auto simp: fetchBatchStocks_def)
  have backend: "backend arg = Rejected
        \<or> (\<exists>r. backend arg = Resolved r \<and> (\<not> ok r \<or> json r = None \<or> json r = Some None))
        \<longrightarrow> (\<exists>e. fetchBatchStocks_backend_try arg backend = Inl e)
          \<and> dom (fetchBatchStocks_backend arg backend) = {}"
    by (auto simp: fetchBatchStocks_backend_def fetchBatchStocks_backend_try_def)
  show ?thesis
    by (intro conjI) (rule direct malformed handler backend)+
qed

theorem fetchBatchStocks_failure_conditions_witness:
  "fetchBatchStocks_try (Array [''TCS.NS'', ''BADSYM'']) example_upstream
     = Inr (fetchBatchStocks (Array [''TCS.NS'', ''BADSYM'']) example_upstream)
   \<and> fetchBatchStocks (Array [''TCS.NS'', ''BADSYM'']) example_upstream ''BADSYM''
       = Some (ErrorMarker ''Failed to fetch'')
   \<and> fetchBatchStocks_try NotArray example_upstream = Inl TypeError
   \<and> dom (fetchBatchStocks NotArray example_upstream) = {}
   \<and> failing_backend (Array [''TCS.NS'']) = Resolved \<lparr> ok = False, status = 500, json = None \<rparr>
   \<and> fetchBatchStocks_backend_try (Array [''TCS.NS'']) failing_backend
       = Inl (HttpError ''Batch fetch failed: '' 500)
   \<and> dom (fetchBatchStocks_backend (Array [''TCS.NS'']) failing_backend) = {}"
proof -
  note t = fetchBatchStocks_failure_conditions
             [of example_upstream "Array [''TCS.NS'']" failing_backend]
  note n = fetchBatchStocks_failure_conditions [of example_upstream NotArray failing_backend]
  note direct = t [THEN conjunct1, THEN spec [where x = "[''TCS.NS'', ''BADSYM'']"]]
  note malformed = n [THEN conjunct2, THEN conjunct1]
  note handler = n [THEN conjunct2, THEN conjunct2, THEN conjunct1]
  note backend = t [THEN conjunct2, THEN conjunct2, THEN conjunct2]
  have "NotArray = NotArray \<or> NotArray = NotSerializable" by simp
  with malformed have raised: "\<exists>e. fetchBatchStocks_try NotArray example_upstream = Inl e"
    by (rule iffD2)
  with handler have 4: "dom (fetchBatchStocks NotArray example_upstream) = {}"
    by (rule mp)
  have 3: "fetchBatchStocks_try NotArray example_upstream = Inl TypeError"
    using raised by (simp add: fetchBatchStocks_try_def)
  have b: "failing_backend (Array [''TCS.NS'']) = Resolved \<lparr> ok = False, status = 500, json = None \<rparr>"
    by (simp add: failing_backend_def)
  then have "failing_backend (Array [''TCS.NS'']) = Rejected
             \<or> (\<exists>r. failing_backend (Array [''TCS.NS'']) = Resolved r
                    \<and> (\<not> ok r \<or> json r = None \<or> json r = Some None))"
    by simp
  with backend have run: "(\<exists>e. fetchBatchStocks_backend_try (Array [''TCS.NS'']) failing_backend = Inl e)
          \<and> dom (fetchBatchStocks_backend (Array [''TCS.NS'']) failing_backend) = {}"
    by (rule mp)
  then have 6: "dom (fetchBatchStocks_backend (Array [''TCS.NS'']) failing_backend) = {}"
    by (rule conjunct2)
  have 5: "fetchBatchStocks_backend_try (Array [''TCS.NS'']) failing_backend
       = Inl (HttpError ''Batch fetch failed: '' 500)"
    using run by (simp add: fetchBatchStocks_backend_try_def failing_backend_def)
  have failed: "''BADSYM'' \<noteq> ''__proto__''
        \<and> (\<forall>i < length [''TCS.NS'', ''BADSYM'']. [''TCS.NS'', ''BADSYM''] ! i = ''BADSYM''
          \<longrightarrow> fetchStockData ''BADSYM'' (example_upstream i ''BADSYM'') = None)"
    by (simp add: example_upstream_def fetchStockData_not_found)
  have mem: "''BADSYM'' \<in> set [''TCS.NS'', ''BADSYM'']" by simp
  have 2: "fetchBatchStocks (Array [''TCS.NS'', ''BADSYM'']) example_upstream ''BADSYM''
       = Some (ErrorMarker ''Failed to fetch'')"
    by (rule direct [THEN conjunct2, THEN bspec, OF mem, THEN mp, OF failed])
  note 1 = direct [THEN conjunct1]
  show ?thesis
    by (intro conjI) (rule 1 2 3 4 b 5 6)+
qed

text \<open>
  The claim itself fails in two places. On the backend client one symbol, a well-formed
  argument and a server that answers HTTP 500 take \<open>fetchBatchStocks\<close> of
  \<^verbatim>\<open>api_config.js\<close> into its handler; the result has no entry for the symbol. On the
  direct client the failure of the fetch for \<open>__proto__\<close> is not delivered: the object
  returned for \<open>[TCS.NS, __proto__]\<close> has the error marker of the first symbol and no entry
  for the second.
\<close>

theorem fetchBatchStocks_backend_failure:
  "fetchBatchStocks_backend_try (Array [''TCS.NS'']) failing_backend
     = Inl (HttpError ''Batch fetch failed: '' 500)
   \<and> dom (fetchBatchStocks_backend (Array [''TCS.NS'']) failing_backend) = {}
   \<and> fetchBatchStocks_backend (Array [''TCS.NS'']) failing_backend ''TCS.NS'' = None
   \<and> fetchStockData ''__proto__'' (down_upstream 1 ''__proto__'') = None
   \<and> fetchBatchStocks (Array [''TCS.NS'', ''__proto__'']) down_upstream ''TCS.NS''
       = Some (ErrorMarker ''Failed to fetch'')
   \<and> fetchBatchStocks (Array [''TCS.NS'', ''__proto__'']) down_upstream ''__proto__'' = None"
proof -
  have down: "fetchStockData s (down_upstream i s) = None" for s i
    by (simp add: down_upstream_def fetchStockData_def fetchStockData_try_def)
  have "fetchBatchStocks (Array [''TCS.NS'', ''__proto__'']) down_upstream ''TCS.NS''
       = Some (ErrorMarker ''Failed to fetch'')"
    by (simp add: fetchBatchStocks_Array set_property_def batch_entry_def down)
  then show ?thesis
    by (simp add: fetchBatchStocks_backend_def fetchBatchStocks_backend_try_def
          failing_backend_def fetchBatchStocks_reserved down)
qed

text \<open>
  X1. The reserved property name never becomes a key: the object returned for an array has
  the requested symbols other than \<open>__proto__\<close> as its keys.
\<close>

theorem fetchBatchStocks_reserved_name:
  "fetchBatchStocks (Array S) upstream ''__proto__'' = None
   \<and> dom (fetchBatchStocks (Array S) upstream) = set S - {''__proto__''}"
  by (simp add: fetchBatchStocks_reserved dom_fetchBatchStocks)

section \<open>Properties of fetchIndices\<close>

lemma fetchIndices_eq:
  "fetchIndices upstream =
     filter_non_null
       [index_snapshot \<lparr> index_entry.symbol = ''^NSEI'', index_entry.name = ''NIFTY 50'' \<rparr>
          (upstream 0 ''^NSEI''),
        index_snapshot \<lparr> index_entry.symbol = ''^NSEBANK'', index_entry.name = ''NIFTY BANK'' \<rparr>
          (upstream 1 ''^NSEBANK''),
        index_snapshot \<lparr> index_entry.symbol = ''^BSESN'', index_entry.name = ''SENSEX'' \<rparr>
          (upstream 2 ''^BSESN'')]"
  by (simp add: fetchIndices_def fetchIndices_try_def indices_def numeral_2_eq_2)

lemma index_snapshot_eq:
  "index_snapshot \<lparr> index_entry.symbol = sy, index_entry.name = nm \<rparr> outcome =
     (case fetchStockData sy outcome of
        Some data \<Rightarrow> Some \<lparr> snapshot.name = nm, price = ltp data,
                            snapshot.change = change data, snapshot.percent = percent data \<rparr>
      | None \<Rightarrow> None)"
  by (simp add: index_snapshot_def split: option.splits)

text \<open>
  C8. \<open>fetchIndices\<close> always completes its \<open>try\<close> block. Its result lists the snapshots
  of the three fixed indices in declaration order with the failed ones left out: an
  index whose fetch returned a quote contributes the snapshot built from its name and
  that quote, an index whose fetch failed contributes nothing. So the result has at most
  three entries, one per successful index, its names are a subsequence of NIFTY 50,
  NIFTY BANK, SENSEX, and it is the empty list when all three fetches fail.
\<close>

theorem fetchIndices_snapshots:
  "fetchIndices_try upstream = Inr (fetchIndices upstream)
   \<and> fetchIndices upstream =
       (case fetchStockData ''^NSEI'' (upstream 0 ''^NSEI'') of
          Some data \<Rightarrow> [\<lparr> snapshot.name = ''NIFTY 50'', price = ltp data,
                            snapshot.change = change data, snapshot.percent = percent data \<rparr>]
        | None \<Rightarrow> [])
       @ (case fetchStockData ''^NSEBANK'' (upstream 1 ''^NSEBANK'') of
          Some data \<Rightarrow> [\<lparr> snapshot.name = ''NIFTY BANK'', price = ltp data,
                            snapshot.change = change data, snapshot.percent = percent data \<rparr>]
        | None \<Rightarrow> [])
       @ (case fetchStockData ''^BSESN'' (upstream 2 ''^BSESN'') of
          Some data \<Rightarrow> [\<lparr> snapshot.name = ''SENSEX'', price = ltp data,
                            snapshot.change = change data, snapshot.percent = percent data \<rparr>]
        | None \<Rightarrow> [])
   \<and> map index_entry.name indices = [''NIFTY 50'', ''NIFTY BANK'', ''SENSEX'']
   \<and> length (fetchIndices upstream) \<le> length indices
   \<and> subseq (map snapshot.name (fetchIndices upstream)) (map index_entry.name indices)
   \<and> (fetchStockData ''^NSEI'' (upstream 0 ''^NSEI'') = None
        \<and> fetchStockData ''^NSEBANK'' (upstream 1 ''^NSEBANK'') = None
        \<and> fetchStockData ''^BSESN'' (upstream 2 ''^BSESN'') = None
        \<longrightarrow> fetchIndices upstream = [])"
proof -
  have 1: "fetchIndices_try upstream = Inr (fetchIndices upstream)"
    by (simp add: fetchIndices_def fetchIndices_try_def)
  have 2: "fetchIndices upstream =
       (case fetchStockData ''^NSEI'' (upstream 0 ''^NSEI'') of
          Some data \<Rightarrow> [\<lparr> snapshot.name = ''NIFTY 50'', price = ltp data,
                            snapshot.change = change data, snapshot.percent = percent data \<rparr>]
        | None \<Rightarrow> [])
       @ (case fetchStockData ''^NSEBANK'' (upstream 1 ''^NSEBANK'') of
          Some data \<Rightarrow> [\<lparr> snapshot.name = ''NIFTY BANK'', price = ltp data,
                            snapshot.change = change data, snapshot.percent = percent data \<rparr>]
        | None \<Rightarrow> [])
       @ (case fetchStockData ''^BSESN'' (upstream 2 ''^BSESN'') of
          Some data \<Rightarrow> [\<lparr> snapshot.name = ''SENSEX'', price = ltp data,
                            snapshot.change = change data, snapshot.percent = percent data \<rparr>]
        | None \<Rightarrow> [])"
    unfolding fetchIndices_eq index_snapshot_eq
    by (simp split: option.splits)
  have 3: "map index_entry.name indices = [''NIFTY 50'', ''NIFTY BANK'', ''SENSEX'']"
    by (simp add: indices_def)
  have 4: "length (fetchIndices upstream) \<le> length indices"
    unfolding 2 by (simp add: indices_def split: option.splits)
  have 5: "subseq (map snapshot.name (fetchIndices upstream)) (map index_entry.name indices)"
    unfolding 2 3 by (simp split: option.splits)
  have 6: "fetchStockData ''^NSEI'' (upstream 0 ''^NSEI'') = None
        \<and> fetchStockData ''^NSEBANK'' (upstream 1 ''^NSEBANK'') = None
        \<and> fetchStockData ''^BSESN'' (upstream 2 ''^BSESN'') = None
        \<longrightarrow> fetchIndices upstream = []"
    unfolding 2 by simp
  show ?thesis
    by (intro conjI) (rule 1 2 3 4 5 6)+
qed

theorem fetchIndices_snapshots_witness:
  "fetchIndices example_upstream =
     [\<lparr> snapshot.name = ''NIFTY 50'', price = 100, snapshot.change = Num 10,
        snapshot.percent = Num (1112 / 100) \<rparr>,
      \<lparr> snapshot.name = ''SENSEX'', price = 100, snapshot.change = Num 10,
        snapshot.percent = Num (1112 / 100) \<rparr>]
   \<and> fetchStockData ''^NSEBANK'' (example_upstream 1 ''^NSEBANK'') = None
   \<and> subseq [''NIFTY 50'', ''SENSEX''] [''NIFTY 50'', ''NIFTY BANK'', ''SENSEX'']
   \<and> fetchStockData ''^NSEI'' (down_upstream 0 ''^NSEI'') = None
   \<and> fetchStockData ''^NSEBANK'' (down_upstream 1 ''^NSEBANK'') = None
   \<and> fetchStockData ''^BSESN'' (down_upstream 2 ''^BSESN'') = None
   \<and> fetchIndices_try down_upstream = Inr []
   \<and> fetchIndices down_upstream = []"
proof -
  note e = fetchIndices_snapshots [of example_upstream]
  note d = fetchIndices_snapshots [of down_upstream]
  have ok: "fetchStockData s (example_upstream i s)
              = (if s = ''BADSYM'' \<or> s = ''^NSEBANK'' then None
                 else Some \<lparr> symbol = s, name = s, ltp = 100, change = Num 10,
                             percent = Num (1112 / 100), exchange = ''Unknown'', previousClose = 90,
                             high = Num (101456 / 1000), low = Num (98765 / 1000), volume = Num 150 \<rparr>)"
    for s i
    by (simp add: example_upstream_def fetchStockData_example fetchStockData_not_found)
  from e have 1: "fetchIndices example_upstream =
     [\<lparr> snapshot.name = ''NIFTY 50'', price = 100, snapshot.change = Num 10,
        snapshot.percent = Num (1112 / 100) \<rparr>,
      \<lparr> snapshot.name = ''SENSEX'', price = 100, snapshot.change = Num 10,
        snapshot.percent = Num (1112 / 100) \<rparr>]"
    by (simp add: ok)
  from e have "subseq (map snapshot.name (fetchIndices example_upstream))
                 (map index_entry.name indices)"
    by blast
  with e 1 have 2: "subseq [''NIFTY 50'', ''SENSEX''] [''NIFTY 50'', ''NIFTY BANK'', ''SENSEX'']"
    by simp
  have 3: "fetchStockData ''^NSEBANK'' (example_upstream 1 ''^NSEBANK'') = None"
    by (simp add: ok)
  have down: "fetchStockData s (down_upstream i s) = None" for s i
    by (simp add: down_upstream_def fetchStockData_def fetchStockData_try_def)
  with d have 4: "fetchIndices down_upstream = []" by blast
  with d have 5: "fetchIndices_try down_upstream = Inr []" by simp
  from 1 2 3 4 5 down show ?thesis by simp
qed


end
